theory Spec2Isabelle
  imports Main
begin

section \<open>Python values and the operations the relay uses on them\<close>

text \<open>
  The relay handles payloads decoded from JSON (\<^verbatim>\<open>Dict[str, Any]\<close> in the source).
  A decoded payload is a value of \<open>json\<close>; a Python \<^verbatim>\<open>dict\<close> is an association list
  in insertion order (its keys are distinct).  Floating-point numbers are not
  modelled.  A Python \<^verbatim>\<open>str\<close> is a \<open>string\<close>: its characters are the code points
  below 256, and the character classes below (whitespace, word characters, letter case)
  are Python's on that range.
\<close>

datatype json =
    JNull
  | JBool bool
  | JInt int
  | JStr string
  | JList "json list"
  | JDict "(string \<times> json) list"

text \<open>
  A raised exception.  \<open>ClientResponseError status message text\<close> is aiohttp's exception
  for an HTTP error status, with its \<^verbatim>\<open>status\<close> and \<^verbatim>\<open>message\<close> attributes; every other
  exception is \<open>Exception text\<close>.  In both, \<open>text\<close> is what \<^verbatim>\<open>str(e)\<close> gives.
\<close>

datatype exn =
    ClientResponseError nat string string
  | Exception string

fun exn_str :: "exn \<Rightarrow> string" where
  "exn_str (ClientResponseError status message text) = text"
| "exn_str (Exception text) = text"

definition ebind :: "exn + 'a \<Rightarrow> ('a \<Rightarrow> exn + 'b) \<Rightarrow> exn + 'b" where
  "ebind m f = (case m of Inl e \<Rightarrow> Inl e | Inr x \<Rightarrow> f x)"

lemma ebind_simps [simp, code]:
  "ebind (Inl e) f = Inl e"
  "ebind (Inr x) f = f x"
  by (simp_all add: ebind_def)

lemma ebind_cong [fundef_cong]:
  "m = m' \<Longrightarrow> (\<And>x. m' = Inr x \<Longrightarrow> f x = f' x) \<Longrightarrow> ebind m f = ebind m' f'"
  by (cases m') (simp_all add: ebind_def)

subsection \<open>Truthiness, type names, \<^verbatim>\<open>str\<close> and \<^verbatim>\<open>repr\<close>\<close>

fun truthy :: "json \<Rightarrow> bool" where
  "truthy JNull = False"
| "truthy (JBool b) = b"
| "truthy (JInt i) = (i \<noteq> 0)"
| "truthy (JStr s) = (s \<noteq> [])"
| "truthy (JList xs) = (xs \<noteq> [])"
| "truthy (JDict kvs) = (kvs \<noteq> [])"

fun py_type_name :: "json \<Rightarrow> string" where
  "py_type_name JNull = ''NoneType''"
| "py_type_name (JBool b) = ''bool''"
| "py_type_name (JInt i) = ''int''"
| "py_type_name (JStr s) = ''str''"
| "py_type_name (JList xs) = ''list''"
| "py_type_name (JDict kvs) = ''dict''"

definition quote :: "string \<Rightarrow> string" where
  "quote s = [CHR 0x27] @ s @ [CHR 0x27]"

definition digit_char :: "nat \<Rightarrow> char" where
  "digit_char d = ''0123456789abcdef'' ! d"

function show_nat :: "nat \<Rightarrow> string" where
  "show_nat n = (if n < 10 then [digit_char n] else show_nat (n div 10) @ [digit_char (n mod 10)])"
  by pat_completeness auto
termination
  by (relation "measure id") auto

definition show_int :: "int \<Rightarrow> string" where
  "show_int i = (if i < 0 then CHR ''-'' # show_nat (nat (- i)) else show_nat (nat i))"

fun py_join :: "string \<Rightarrow> string list \<Rightarrow> string" where
  "py_join sep [] = []"
| "py_join sep [x] = x"
| "py_join sep (x # y # ys) = x @ sep @ py_join sep (y # ys)"

text \<open>\<^verbatim>\<open>repr\<close> of a string: single quotes unless the string has a single quote and
  no double quote; the quote character, the backslash and the characters that are not
  printable (below 32, from 127 to 160, and 173) are escaped.\<close>

definition repr_char :: "char \<Rightarrow> char \<Rightarrow> string" where
  "repr_char q c =
     (if c = q \<or> c = CHR 0x5C then [CHR 0x5C, c]
      else if c = CHR 0x09 then [CHR 0x5C, CHR ''t'']
      else if c = CHR 0x0A then [CHR 0x5C, CHR ''n'']
      else if c = CHR 0x0D then [CHR 0x5C, CHR ''r'']
      else if of_char c < (32::nat) \<or> ((127::nat) \<le> of_char c \<and> of_char c \<le> (160::nat))
              \<or> of_char c = (173::nat)
        then [CHR 0x5C, CHR ''x'', digit_char (of_char c div 16), digit_char (of_char c mod 16)]
      else [c])"

definition repr_str :: "string \<Rightarrow> string" where
  "repr_str s =
     (let q = (if CHR 0x27 \<in> set s \<and> CHR 0x22 \<notin> set s then CHR 0x22 else CHR 0x27)
      in [q] @ concat (map (repr_char q) s) @ [q])"

fun py_repr :: "json \<Rightarrow> string" where
  "py_repr JNull = ''None''"
| "py_repr (JBool b) = (if b then ''True'' else ''False'')"
| "py_repr (JInt i) = show_int i"
| "py_repr (JStr s) = repr_str s"
| "py_repr (JList xs) = ''['' @ py_join '', '' (map py_repr xs) @ '']''"
| "py_repr (JDict kvs) =
     ''{'' @ py_join '', '' (map (\<lambda>kv. repr_str (fst kv) @ '': '' @ py_repr (snd kv)) kvs) @ ''}''"

definition py_str :: "json \<Rightarrow> string" where
  "py_str v = (case v of JStr s \<Rightarrow> s | _ \<Rightarrow> py_repr v)"

subsection \<open>Attribute access, membership, subscripting, iteration, length\<close>

definition attribute_error :: "json \<Rightarrow> string \<Rightarrow> exn" where
  "attribute_error v name =
     Exception (quote (py_type_name v) @ '' object has no attribute '' @ quote name)"

definition not_iterable :: "json \<Rightarrow> exn" where
  "not_iterable v = Exception (quote (py_type_name v) @ '' object is not iterable'')"

definition not_subscriptable :: "json \<Rightarrow> exn" where
  "not_subscriptable v = Exception (quote (py_type_name v) @ '' object is not subscriptable'')"

text \<open>\<^verbatim>\<open>x.get(key, default)\<close>: only a dict has the method.\<close>

definition py_get :: "json \<Rightarrow> string \<Rightarrow> json \<Rightarrow> exn + json" where
  "py_get x key dflt =
     (case x of
        JDict kvs \<Rightarrow> Inr (case map_of kvs key of Some v \<Rightarrow> v | None \<Rightarrow> dflt)
      | _ \<Rightarrow> Inl (attribute_error x ''get''))"

fun is_substring :: "string \<Rightarrow> string \<Rightarrow> bool" where
  "is_substring sub [] = (sub = [])"
| "is_substring sub (c # cs) = (sub = take (length sub) (c # cs) \<or> is_substring sub cs)"

text \<open>\<^verbatim>\<open>key in x\<close> for a string \<open>key\<close>: a key of a dict, an element of a list, a
  substring of a string; a TypeError otherwise.\<close>

definition py_contains :: "string \<Rightarrow> json \<Rightarrow> exn + bool" where
  "py_contains key x =
     (case x of
        JDict kvs \<Rightarrow> Inr (map_of kvs key \<noteq> None)
      | JList xs \<Rightarrow> Inr (JStr key \<in> set xs)
      | JStr s \<Rightarrow> Inr (is_substring key s)
      | _ \<Rightarrow> Inl (Exception (''argument of type '' @ quote (py_type_name x) @ '' is not iterable'')))"

text \<open>\<^verbatim>\<open>x[key]\<close> for a string \<open>key\<close>.\<close>

definition py_getitem :: "json \<Rightarrow> string \<Rightarrow> exn + json" where
  "py_getitem x key =
     (case x of
        JDict kvs \<Rightarrow> (case map_of kvs key of Some v \<Rightarrow> Inr v | None \<Rightarrow> Inl (Exception (repr_str key)))
      | JList xs \<Rightarrow> Inl (Exception ''list indices must be integers or slices, not str'')
      | JStr s \<Rightarrow> Inl (Exception (''string indices must be integers, not '' @ quote ''str''))
      | _ \<Rightarrow> Inl (not_subscriptable x))"

text \<open>The elements a \<^verbatim>\<open>for\<close> loop visits: of a list its elements, of a string its
  characters, of a dict its keys.\<close>

definition py_iter :: "json \<Rightarrow> exn + json list" where
  "py_iter x =
     (case x of
        JList xs \<Rightarrow> Inr xs
      | JStr s \<Rightarrow> Inr (map (\<lambda>c. JStr [c]) s)
      | JDict kvs \<Rightarrow> Inr (map (\<lambda>kv. JStr (fst kv)) kvs)
      | _ \<Rightarrow> Inl (not_iterable x))"

definition py_len :: "json \<Rightarrow> exn + nat" where
  "py_len x =
     (case x of
        JList xs \<Rightarrow> Inr (length xs)
      | JStr s \<Rightarrow> Inr (length s)
      | JDict kvs \<Rightarrow> Inr (length kvs)
      | _ \<Rightarrow> Inl (Exception (''object of type '' @ quote (py_type_name x) @ '' has no len()'')))"

text \<open>\<^verbatim>\<open>x[0]\<close>.\<close>

definition py_first :: "json \<Rightarrow> exn + json" where
  "py_first x =
     (case x of
        JList xs \<Rightarrow> (case xs of [] \<Rightarrow> Inl (Exception ''list index out of range'') | y # ys \<Rightarrow> Inr y)
      | JStr s \<Rightarrow> (case s of [] \<Rightarrow> Inl (Exception ''string index out of range'') | c # cs \<Rightarrow> Inr (JStr [c]))
      | JDict kvs \<Rightarrow> Inl (Exception ''0'')
      | _ \<Rightarrow> Inl (not_subscriptable x))"

text \<open>The elements of \<^verbatim>\<open>x[:10]\<close>, in the order a loop visits them.\<close>

definition py_first10 :: "json \<Rightarrow> exn + json list" where
  "py_first10 x =
     (case x of
        JList xs \<Rightarrow> Inr (take 10 xs)
      | JStr s \<Rightarrow> Inr (map (\<lambda>c. JStr [c]) (take 10 s))
      | JDict kvs \<Rightarrow> Inl (Exception (''unhashable type: '' @ quote ''slice''))
      | _ \<Rightarrow> Inl (not_subscriptable x))"

definition ljust :: "string \<Rightarrow> nat \<Rightarrow> string" where
  "ljust s w = s @ replicate (w - length s) CHR '' ''"


section \<open>Rendering a query result (\<^verbatim>\<open>GenieClient._format_query_result\<close>)\<close>

text \<open>\<^verbatim>\<open>[col.get("name", f"col{i}") for i, col in enumerate(columns)]\<close>\<close>

fun column_names :: "nat \<Rightarrow> json list \<Rightarrow> exn + json list" where
  "column_names i [] = Inr []"
| "column_names i (col # cols) =
     ebind (py_get col ''name'' (JStr (''col'' @ show_nat i))) (\<lambda>name.
     ebind (column_names (i + 1) cols) (\<lambda>names. Inr (name # names)))"

text \<open>The column names of \<^verbatim>\<open>stmt["manifest"]["schema"]["columns"]\<close>, or \<open>[]\<close> when a
  level is missing or the list is empty.\<close>

definition manifest_columns :: "json \<Rightarrow> exn + json list" where
  "manifest_columns stmt =
     ebind (py_contains ''manifest'' stmt) (\<lambda>has_manifest.
     if \<not> has_manifest then Inr [] else
     ebind (py_getitem stmt ''manifest'') (\<lambda>manifest.
     ebind (py_contains ''schema'' manifest) (\<lambda>has_schema.
     if \<not> has_schema then Inr [] else
     ebind (py_getitem manifest ''schema'') (\<lambda>manifest_schema.
     ebind (py_contains ''columns'' manifest_schema) (\<lambda>has_columns.
     if \<not> has_columns then Inr [] else
     ebind (py_getitem manifest_schema ''columns'') (\<lambda>cols.
     if \<not> truthy cols then Inr [] else
     ebind (py_iter cols) (\<lambda>cs. column_names 0 cs)))))))"

text \<open>\<^verbatim>\<open>[f"Column {i+1}" for i in range(n)]\<close>\<close>

definition default_columns :: "nat \<Rightarrow> json list" where
  "default_columns n = map (\<lambda>i. JStr (''Column '' @ show_nat (i + 1))) [0..<n]"

text \<open>\<^verbatim>\<open>len(str(val)) if val is not None else 4\<close> and
  \<^verbatim>\<open>str(val) if val is not None else "NULL"\<close>\<close>

definition cell_width :: "json \<Rightarrow> nat" where
  "cell_width val = (if val \<noteq> JNull then length (py_str val) else 4)"

definition cell_str :: "json \<Rightarrow> string" where
  "cell_str val = (if val \<noteq> JNull then py_str val else ''NULL'')"

text \<open>One pass of the inner width loop over \<^verbatim>\<open>enumerate(row)\<close>, from index \<open>i\<close>.\<close>

fun widen_row :: "nat list \<Rightarrow> nat \<Rightarrow> json list \<Rightarrow> nat list" where
  "widen_row col_widths i [] = col_widths"
| "widen_row col_widths i (val # vals) =
     widen_row
       (if i < length col_widths
        then col_widths[i := max (col_widths ! i) (cell_width val)] else col_widths)
       (i + 1) vals"

text \<open>The outer width loop over \<^verbatim>\<open>rows[:10]\<close>; a row that cannot be enumerated raises.\<close>

fun widen_rows :: "nat list \<Rightarrow> json list \<Rightarrow> exn + nat list" where
  "widen_rows col_widths [] = Inr col_widths"
| "widen_rows col_widths (row # rows) =
     ebind (py_iter row) (\<lambda>vals. widen_rows (widen_row col_widths 0 vals) rows)"

text \<open>The cells of one data row: a value beyond the last column is dropped.\<close>

fun format_cells :: "nat list \<Rightarrow> nat \<Rightarrow> json list \<Rightarrow> string list" where
  "format_cells col_widths i [] = []"
| "format_cells col_widths i (val # vals) =
     (if i < length col_widths then [ljust (cell_str val) (col_widths ! i)] else [])
     @ format_cells col_widths (i + 1) vals"

fun format_rows :: "nat list \<Rightarrow> json list \<Rightarrow> exn + string list" where
  "format_rows col_widths [] = Inr []"
| "format_rows col_widths (row # rows) =
     ebind (py_iter row) (\<lambda>vals.
     ebind (format_rows col_widths rows) (\<lambda>lines.
     Inr (py_join '' | '' (format_cells col_widths 0 vals) # lines)))"

definition header_line :: "json list \<Rightarrow> nat list \<Rightarrow> string" where
  "header_line columns col_widths =
     py_join '' | '' (map (\<lambda>(col, w). ljust (py_str col) w) (zip columns col_widths))"

definition separator_line :: "nat list \<Rightarrow> string" where
  "separator_line col_widths = py_join ''-+-'' (map (\<lambda>w. replicate w CHR ''-'') col_widths)"

definition code_fence :: string where
  "code_fence = [CHR 0x60, CHR 0x60, CHR 0x60]"

definition more_rows_line :: "nat \<Rightarrow> string" where
  "more_rows_line k = [CHR 0x0A] @ ''('' @ show_nat k @ '' more rows...)''"

text \<open>The table of \<open>rows\<close> (a non-empty \<^verbatim>\<open>data_array\<close>) under \<open>columns\<close>.\<close>

definition format_table :: "json list \<Rightarrow> json \<Rightarrow> exn + string" where
  "format_table columns0 rows =
     ebind (if columns0 = []
            then ebind (py_first rows) (\<lambda>row0. ebind (py_len row0) (\<lambda>n. Inr (default_columns n)))
            else Inr columns0) (\<lambda>columns.
     ebind (py_first10 rows) (\<lambda>shown.
     ebind (widen_rows (map (\<lambda>col. length (py_str col)) columns) shown) (\<lambda>col_widths.
     ebind (format_rows col_widths shown) (\<lambda>lines.
     ebind (py_len rows) (\<lambda>n.
     Inr (py_join [CHR 0x0A]
            ([[CHR 0x0A] @ code_fence, header_line columns col_widths, separator_line col_widths]
             @ lines @ [code_fence]
             @ (if n > 10 then [more_rows_line (n - 10)] else []))))))))"

text \<open>The body of the \<^verbatim>\<open>try\<close> block.\<close>

definition format_query_result_body :: "json \<Rightarrow> exn + string" where
  "format_query_result_body result_data =
     ebind (py_contains ''statement_response'' result_data) (\<lambda>has_stmt.
     if \<not> has_stmt then Inr [] else
     ebind (py_getitem result_data ''statement_response'') (\<lambda>stmt.
     ebind (manifest_columns stmt) (\<lambda>columns.
     ebind (py_contains ''result'' stmt) (\<lambda>has_result.
     if \<not> has_result then Inr [] else
     ebind (py_getitem stmt ''result'') (\<lambda>result.
     if \<not> truthy result then Inr [] else
     ebind (py_contains ''data_array'' result) (\<lambda>has_data.
     if \<not> has_data then Inr [] else
     ebind (py_getitem result ''data_array'') (\<lambda>rows.
     if \<not> truthy rows then Inr [] else
     format_table columns rows)))))))"

text \<open>Any exception is logged and the result is the empty string.\<close>

definition format_query_result :: "json \<Rightarrow> string" where
  "format_query_result result_data =
     (case format_query_result_body result_data of Inl e \<Rightarrow> [] | Inr text \<Rightarrow> text)"

section \<open>Assembling the answer (\<^verbatim>\<open>GenieClient._extract_response_with_attachments\<close>)\<close>

text \<open>Python's \<^verbatim>\<open>==\<close> on decoded values: \<^verbatim>\<open>True == 1\<close>, lists compare element by
  element, dicts compare as sets of items.\<close>

fun py_eq :: "json \<Rightarrow> json \<Rightarrow> bool"
  and py_eq_list :: "json list \<Rightarrow> json list \<Rightarrow> bool"
  and py_eq_items :: "(string \<times> json) list \<Rightarrow> (string \<times> json) list \<Rightarrow> bool" where
  "py_eq JNull y = (y = JNull)"
| "py_eq (JBool a) y =
     (case y of JBool b \<Rightarrow> a = b | JInt j \<Rightarrow> (if a then 1 else 0) = j | _ \<Rightarrow> False)"
| "py_eq (JInt i) y =
     (case y of JBool b \<Rightarrow> i = (if b then 1 else 0) | JInt j \<Rightarrow> i = j | _ \<Rightarrow> False)"
| "py_eq (JStr s) y = (y = JStr s)"
| "py_eq (JList xs) y = (case y of JList ys \<Rightarrow> py_eq_list xs ys | _ \<Rightarrow> False)"
| "py_eq (JDict kvs) y =
     (case y of JDict kvs' \<Rightarrow> length kvs = length kvs' \<and> py_eq_items kvs kvs' | _ \<Rightarrow> False)"
| "py_eq_list [] ys = (ys = [])"
| "py_eq_list (x # xs) ys = (case ys of [] \<Rightarrow> False | y # ys' \<Rightarrow> py_eq x y \<and> py_eq_list xs ys')"
| "py_eq_items [] kvs' = True"
| "py_eq_items (kv # kvs) kvs' =
     ((case map_of kvs' (fst kv) of None \<Rightarrow> False | Some v' \<Rightarrow> py_eq (snd kv) v')
      \<and> py_eq_items kvs kvs')"

text \<open>The reply to the request for one attachment's query result: the request (or the
  token fetch before it) raises, or a response arrives with a status and, when its body
  is read, the decoded body or an exception.\<close>

datatype fetch_reply =
    FetchRaises exn
  | FetchResponse nat "exn + json"

text \<open>The explanatory text of an attachment (a dict): \<^verbatim>\<open>query.description\<close> when it is
  truthy, else \<^verbatim>\<open>text.content\<close>, else a plain string \<^verbatim>\<open>text\<close>; \<^verbatim>\<open>None\<close> otherwise.\<close>

definition attachment_text :: "(string \<times> json) list \<Rightarrow> json" where
  "attachment_text attachment =
     (let text_content =
            (case map_of attachment ''query'' of
               Some (JDict query_obj) \<Rightarrow>
                 (case map_of query_obj ''description'' of
                    Some description \<Rightarrow> if truthy description then description else JNull
                  | None \<Rightarrow> JNull)
             | _ \<Rightarrow> JNull)
      in if \<not> truthy text_content then
           (case map_of attachment ''text'' of
              Some (JDict text_obj) \<Rightarrow>
                (case map_of text_obj ''content'' of Some c \<Rightarrow> c | None \<Rightarrow> text_content)
            | Some (JStr s) \<Rightarrow> JStr s
            | _ \<Rightarrow> text_content)
         else text_content)"

text \<open>\<^verbatim>\<open>if text_content and text_content != user_question and len(text_content) > 10:
  parts.append(text_content)\<close>\<close>

definition add_explanation :: "json \<Rightarrow> json \<Rightarrow> json list \<Rightarrow> exn + json list" where
  "add_explanation user_question text_content parts =
     (if truthy text_content \<and> \<not> py_eq text_content user_question
      then ebind (py_len text_content) (\<lambda>n. Inr (if n > 10 then parts @ [text_content] else parts))
      else Inr parts)"

text \<open>\<^verbatim>\<open>attachment.get("attachment_id") or attachment.get("id")\<close>\<close>

definition attachment_id :: "(string \<times> json) list \<Rightarrow> json" where
  "attachment_id attachment =
     (case map_of attachment ''attachment_id'' of
        Some a \<Rightarrow> if truthy a then a else (case map_of attachment ''id'' of Some b \<Rightarrow> b | None \<Rightarrow> JNull)
      | None \<Rightarrow> (case map_of attachment ''id'' of Some b \<Rightarrow> b | None \<Rightarrow> JNull))"

text \<open>Fetching and rendering the query result; an exception is logged and swallowed.\<close>

definition add_query_result :: "fetch_reply \<Rightarrow> (string \<times> json) list \<Rightarrow> json list \<Rightarrow> json list" where
  "add_query_result reply attachment parts =
     (if truthy (attachment_id attachment) then
        (case reply of
           FetchRaises e \<Rightarrow> parts
         | FetchResponse status body \<Rightarrow>
             if status = 200 then
               (case body of
                  Inl e \<Rightarrow> parts
                | Inr result_data \<Rightarrow>
                    (let query_result_text = format_query_result result_data
                     in if query_result_text \<noteq> [] then parts @ [JStr query_result_text] else parts))
             else parts)
      else parts)"

text \<open>The loop over the attachments; \<open>fetch i\<close> is the reply to the request made for the
  attachment at position \<open>i\<close>.\<close>

fun extract_attachments ::
  "(nat \<Rightarrow> fetch_reply) \<Rightarrow> json \<Rightarrow> nat \<Rightarrow> json list \<Rightarrow> json list \<Rightarrow> exn + json list" where
  "extract_attachments fetch user_question i [] parts = Inr parts"
| "extract_attachments fetch user_question i (attachment # attachments) parts =
     (case attachment of
        JDict a \<Rightarrow>
          ebind (add_explanation user_question (attachment_text a) parts) (\<lambda>parts'.
          extract_attachments fetch user_question (i + 1) attachments
            (add_query_result (fetch i) a parts'))
      | _ \<Rightarrow> extract_attachments fetch user_question (i + 1) attachments parts)"

text \<open>\<^verbatim>\<open>sep.join(parts)\<close>: every item has to be a string.\<close>

fun join_values :: "string \<Rightarrow> nat \<Rightarrow> json list \<Rightarrow> exn + string list" where
  "join_values sep i [] = Inr []"
| "join_values sep i (v # vs) =
     (case v of
        JStr s \<Rightarrow> ebind (join_values sep (i + 1) vs) (\<lambda>rest. Inr (s # rest))
      | _ \<Rightarrow> Inl (Exception (''sequence item '' @ show_nat i @ '': expected str instance, ''
                              @ py_type_name v @ '' found'')))"

definition py_join_values :: "string \<Rightarrow> json list \<Rightarrow> exn + string" where
  "py_join_values sep vs = ebind (join_values sep 0 vs) (\<lambda>strs. Inr (py_join sep strs))"

definition no_content_message :: string where
  "no_content_message = ''Sorry, I couldn'' @ [CHR 0x27] @ ''t extract Genie''
     @ [CHR 0x27] @ ''s response. Please try again.''"

definition extract_response_with_attachments :: "(nat \<Rightarrow> fetch_reply) \<Rightarrow> json \<Rightarrow> exn + string" where
  "extract_response_with_attachments fetch message_data =
     ebind (py_get message_data ''content'' (JStr [])) (\<lambda>user_question.
     ebind (py_contains ''attachments'' message_data) (\<lambda>has_attachments.
     ebind (if has_attachments
            then ebind (py_getitem message_data ''attachments'') (\<lambda>attachments.
                 if truthy attachments
                 then ebind (py_iter attachments) (\<lambda>items.
                      extract_attachments fetch user_question 0 items [])
                 else Inr [])
            else Inr []) (\<lambda>parts.
     if parts \<noteq> [] then py_join_values [CHR 0x0A, CHR 0x0A] parts
     else Inr no_content_message)))"

section \<open>Polling (\<^verbatim>\<open>GenieClient._poll_for_response\<close>)\<close>

text \<open>One attempt's reply to the status request: the request raises (a network failure, or
  \<^verbatim>\<open>raise_for_status\<close> on an HTTP error), or the decoded message payload arrives, together
  with the replies its attachment requests would get.\<close>

datatype poll_reply =
    PollRaises exn
  | PollData json "nat \<Rightarrow> fetch_reply"

text \<open>What one iteration of the loop body does.\<close>

datatype poll_step = Return string | Retry | Raise exn

definition timeout_message :: string where
  "timeout_message = ''Sorry, Genie is taking too long to respond. Please try again.''"

definition failure_message :: "json \<Rightarrow> string" where
  "failure_message error_msg = ''Sorry, Genie encountered an error: '' @ py_str error_msg"

definition poll_attempt :: "poll_reply \<Rightarrow> poll_step" where
  "poll_attempt reply =
     (case reply of
        PollRaises e \<Rightarrow> Raise e
      | PollData data fetch \<Rightarrow>
          (case py_get data ''status'' (JStr []) of
             Inl e \<Rightarrow> Raise e
           | Inr status \<Rightarrow>
               if status \<in> set [JStr ''COMPLETED'', JStr ''SUCCESS'', JStr ''FINISHED''] then
                 (case extract_response_with_attachments fetch data of
                    Inl e \<Rightarrow> Raise e
                  | Inr response_text \<Rightarrow> Return response_text)
               else if status \<in> set [JStr ''FAILED'', JStr ''ERROR''] then
                 (case ebind (py_get data ''error'' (JDict []))
                         (\<lambda>err. py_get err ''message'' (JStr ''Unknown error'')) of
                    Inl e \<Rightarrow> Raise e
                  | Inr error_msg \<Rightarrow> Return (failure_message error_msg))
               else if status \<in> set [JStr ''EXECUTING'', JStr ''QUERYING_HISTORY'',
                                        JStr ''RUNNING'', JStr ''PENDING''] then Retry
               else Retry))"

text \<open>The loop \<^verbatim>\<open>for attempt in range(max_attempts)\<close>, from iteration \<open>attempt\<close>, with the number
  of \<^verbatim>\<open>asyncio.sleep(delay)\<close> calls made so far.  The result is that number and either
  the returned text or the exception that left the loop.\<close>

function poll_loop ::
  "(nat \<Rightarrow> poll_reply) \<Rightarrow> nat \<Rightarrow> nat \<Rightarrow> nat \<Rightarrow> nat \<times> (exn + string)" where
  "poll_loop replies max_attempts attempt sleeps =
     (if attempt < max_attempts then
        (case poll_attempt (replies attempt) of
           Return response_text \<Rightarrow> (sleeps, Inr response_text)
         | Retry \<Rightarrow> poll_loop replies max_attempts (attempt + 1) (sleeps + 1)
         | Raise e \<Rightarrow>
             if attempt < max_attempts - 1
             then poll_loop replies max_attempts (attempt + 1) (sleeps + 1)
             else (sleeps, Inl e))
      else (sleeps, Inr timeout_message))"
  by pat_completeness auto
termination
  by (relation "measure (\<lambda>(replies, max_attempts, attempt, sleeps). max_attempts - attempt)") auto

text \<open>\<open>setup\<close> is the exception, if any, raised before the loop (by the token fetch).\<close>

definition poll_for_response ::
  "exn option \<Rightarrow> (nat \<Rightarrow> poll_reply) \<Rightarrow> nat \<Rightarrow> nat \<times> (exn + string)" where
  "poll_for_response setup replies max_attempts =
     (case setup of
        Some e \<Rightarrow> (0, Inl e)
      | None \<Rightarrow> poll_loop replies max_attempts 0 0)"

section \<open>The Genie client's operations\<close>

text \<open>
  The reply to the POST that starts or continues a conversation: making the request
  raises (the token fetch, the network), or a response arrives with its status, the text
  of its body, that text decoded by \<^verbatim>\<open>json.loads\<close> (\<open>None\<close> for a JSONDecodeError) and
  what \<^verbatim>\<open>response.json()\<close> gives.
\<close>

datatype post_reply =
    PostRaises exn
  | PostResponse nat string "json option" "exn + json"

text \<open>The reply to the feedback POST: the token fetch raises and nothing is sent, or the
  request is sent and fails (network, HTTP error status), or it is accepted.\<close>

datatype feedback_reply =
    FeedbackNotSent exn
  | FeedbackFailed exn
  | FeedbackAccepted

text \<open>What the remote service does during one incoming activity.\<close>

record remote =
  post :: post_reply
  poll_setup :: "exn option"
  polls :: "nat \<Rightarrow> poll_reply"
  feedback :: feedback_reply

text \<open>
  The dictionary an operation returns: \<open>GenieSuccess conversation_id message_id response\<close>
  has status \<open>success\<close>; \<open>GenieError error\<close> has status \<open>error\<close> and no conversation id.
  (An error dictionary also has a \<^verbatim>\<open>response\<close> text, which no caller reads.)
\<close>

datatype genie_result =
    GenieSuccess json json string
  | GenieError string

definition default_max_attempts :: nat where
  "default_max_attempts = 30"

text \<open>The two \<^verbatim>\<open>except\<close> clauses of \<^verbatim>\<open>ask_question\<close>.\<close>

fun ask_question_failed :: "exn \<Rightarrow> genie_result" where
  "ask_question_failed (ClientResponseError status message text) =
     GenieError (''HTTP '' @ show_nat status @ '': '' @ message)"
| "ask_question_failed (Exception text) = GenieError text"

definition ask_question_http_error :: "nat \<Rightarrow> json \<Rightarrow> genie_result" where
  "ask_question_http_error status error_msg =
     (if status = 400 then GenieError (''Bad Request: '' @ py_str error_msg)
      else if status = 401 then GenieError (''Unauthorized: '' @ py_str error_msg)
      else if status = 403 then GenieError (''Forbidden: '' @ py_str error_msg)
      else if status = 404 then GenieError (''Not Found: '' @ py_str error_msg)
      else GenieError (''HTTP '' @ show_nat status @ '': '' @ py_str error_msg))"

definition ask_question :: "remote \<Rightarrow> string \<Rightarrow> genie_result" where
  "ask_question r question =
     (case post r of
        PostRaises e \<Rightarrow> ask_question_failed e
      | PostResponse status error_body error_json body \<Rightarrow>
          if status \<ge> 400 then
            (case error_json of
               None \<Rightarrow> GenieError (''HTTP '' @ show_nat status @ '': '' @ error_body)
             | Some decoded \<Rightarrow>
                 (case py_get decoded ''message'' (JStr error_body) of
                    Inl e \<Rightarrow> ask_question_failed e
                  | Inr error_msg \<Rightarrow> ask_question_http_error status error_msg))
          else
            (case ebind body (\<lambda>data.
                  ebind (py_get data ''conversation_id'' (JStr [])) (\<lambda>conv_id.
                  ebind (py_get data ''message_id'' (JStr [])) (\<lambda>msg_id.
                  Inr (conv_id, msg_id)))) of
               Inl e \<Rightarrow> ask_question_failed e
             | Inr (conv_id, msg_id) \<Rightarrow>
                 if \<not> truthy conv_id \<or> \<not> truthy msg_id
                 then GenieError ''Invalid response from Genie API''
                 else
                   (case snd (poll_for_response (poll_setup r) (polls r) default_max_attempts) of
                      Inl e \<Rightarrow> ask_question_failed e
                    | Inr response_text \<Rightarrow> GenieSuccess conv_id msg_id response_text)))"

definition continue_conversation_http_error :: "nat \<Rightarrow> json \<Rightarrow> genie_result" where
  "continue_conversation_http_error status error_msg =
     (if status = 400 then GenieError (''Bad Request: '' @ py_str error_msg)
      else if status = 404 then GenieError (''Not Found: '' @ py_str error_msg)
      else GenieError (''HTTP '' @ show_nat status @ '': '' @ py_str error_msg))"

definition continue_conversation :: "remote \<Rightarrow> json \<Rightarrow> string \<Rightarrow> genie_result" where
  "continue_conversation r conversation_id question =
     (case post r of
        PostRaises e \<Rightarrow> GenieError (exn_str e)
      | PostResponse status error_body error_json body \<Rightarrow>
          if status \<ge> 400 then
            (case error_json of
               None \<Rightarrow> GenieError (''HTTP '' @ show_nat status @ '': '' @ error_body)
             | Some decoded \<Rightarrow>
                 (case py_get decoded ''message'' (JStr error_body) of
                    Inl e \<Rightarrow> GenieError (exn_str e)
                  | Inr error_msg \<Rightarrow> continue_conversation_http_error status error_msg))
          else
            (case ebind body (\<lambda>data. py_get data ''message_id'' (JStr [])) of
               Inl e \<Rightarrow> GenieError (exn_str e)
             | Inr msg_id \<Rightarrow>
                 (case snd (poll_for_response (poll_setup r) (polls r) default_max_attempts) of
                    Inl e \<Rightarrow> GenieError (exn_str e)
                  | Inr response_text \<Rightarrow> GenieSuccess conversation_id msg_id response_text)))"

subsection \<open>Feedback (\<^verbatim>\<open>GenieClient.send_feedback\<close>)\<close>

text \<open>\<^verbatim>\<open>str.upper\<close>, character by character: the letters a to z and the accented small
  letters 224 to 254 (but not the division sign 247) move down by 32, the sharp s (223)
  becomes \<open>SS\<close>.  The upper case of the micro sign (181) and of the y with diaeresis (255)
  lies beyond code point 255 and is not modelled: they are left as they are.\<close>

definition upper_chars :: "char \<Rightarrow> string" where
  "upper_chars c =
     (if ((97::nat) \<le> of_char c \<and> of_char c \<le> (122::nat))
         \<or> ((224::nat) \<le> of_char c \<and> of_char c \<le> (254::nat) \<and> of_char c \<noteq> (247::nat))
      then [char_of (of_char c - (32::nat))]
      else if of_char c = (223::nat) then ''SS''
      else [c])"

definition py_upper :: "string \<Rightarrow> string" where
  "py_upper s = concat (map upper_chars s)"

text \<open>Lower case as the regular expression engine folds it under \<^verbatim>\<open>re.IGNORECASE\<close>: the
  letters A to Z and the accented capital letters 192 to 222 (but not the multiplication
  sign 215) move up by 32.  Two characters match without regard to case exactly when their
  lower cases are equal.\<close>

definition lower_char :: "char \<Rightarrow> char" where
  "lower_char c =
     (if ((65::nat) \<le> of_char c \<and> of_char c \<le> (90::nat))
         \<or> ((192::nat) \<le> of_char c \<and> of_char c \<le> (222::nat) \<and> of_char c \<noteq> (215::nat))
      then char_of (of_char c + (32::nat))
      else c)"

text \<open>What the bot's trace records: the client operations it calls, and the feedback request
  that leaves for the remote service (conversation id and message id as put into the URL, and
  the rating of the payload).\<close>

datatype event =
    AskQuestion string
  | ContinueConversation json string
  | SendFeedback json json json
  | FeedbackRequest string string string

datatype feedback_result = FeedbackSuccess | FeedbackError string

definition send_feedback :: "remote \<Rightarrow> json \<Rightarrow> json \<Rightarrow> json \<Rightarrow> event list \<times> feedback_result" where
  "send_feedback r conversation_id message_id rating =
     (case rating of
        JStr text \<Rightarrow>
          (let rating_upper = py_upper text;
               request = FeedbackRequest (py_str conversation_id) (py_str message_id) rating_upper
           in case feedback r of
                FeedbackNotSent e \<Rightarrow> ([], FeedbackError (exn_str e))
              | FeedbackFailed e \<Rightarrow> ([request], FeedbackError (exn_str e))
              | FeedbackAccepted \<Rightarrow> ([request], FeedbackSuccess))
      | _ \<Rightarrow> ([], FeedbackError (exn_str (attribute_error rating ''upper''))))"

section \<open>The Teams bot\<close>

subsection \<open>String operations\<close>

text \<open>\<^verbatim>\<open>str.isspace\<close>, which is also the class \<^verbatim>\<open>\s\<close> and what \<^verbatim>\<open>str.strip\<close> removes: tab,
  line feed, vertical tab, form feed, carriage return, the separators 28 to 31, the space,
  the next-line control (133) and the no-break space (160).\<close>

definition is_space :: "char \<Rightarrow> bool" where
  "is_space c \<longleftrightarrow>
     (of_char c :: nat) \<in> set [9, 10, 11, 12, 13, 28, 29, 30, 31, 32, 133, 160]"

text \<open>A word character of the regular expression syntax (\<^verbatim>\<open>\w\<close>): the underscore and what
  \<^verbatim>\<open>str.isalnum\<close> accepts, that is the digits, the letters, and beyond 127 the ordinal
  indicators (170, 186), the superscript digits (178, 179, 185), the micro sign (181), the
  fractions (188 to 190) and the accented letters (192 to 255 without 215 and 247).\<close>

definition is_word :: "char \<Rightarrow> bool" where
  "is_word c \<longleftrightarrow>
     ((48::nat) \<le> of_char c \<and> of_char c \<le> (57::nat))
     \<or> ((65::nat) \<le> of_char c \<and> of_char c \<le> (90::nat))
     \<or> of_char c = (95::nat)
     \<or> ((97::nat) \<le> of_char c \<and> of_char c \<le> (122::nat))
     \<or> (of_char c :: nat) \<in> set [170, 178, 179, 181, 185, 186, 188, 189, 190]
     \<or> ((192::nat) \<le> of_char c \<and> of_char c \<noteq> (215::nat) \<and> of_char c \<noteq> (247::nat))"

definition py_strip :: "string \<Rightarrow> string" where
  "py_strip s = rev (dropWhile is_space (rev (dropWhile is_space s)))"

text \<open>\<^verbatim>\<open>s.replace(old, new)\<close>: every occurrence of \<open>old\<close>, found from left to right without
  overlap, becomes \<open>new\<close>.\<close>

function py_replace :: "string \<Rightarrow> string \<Rightarrow> string \<Rightarrow> string" where
  "py_replace s old new =
     (if old = [] then new @ concat (map (\<lambda>c. c # new) s)
      else if s = [] then []
      else if take (length old) s = old then new @ py_replace (drop (length old) s) old new
      else hd s # py_replace (tl s) old new)"
  by pat_completeness auto
termination
  by (relation "measure (\<lambda>(s, old, new). length s)") auto

declare py_replace.simps [simp del]

subsection \<open>Removing the mention of the bot (\<^verbatim>\<open>TeamsBot._extract_user_message\<close>)\<close>

text \<open>
  An entity of the incoming activity.  The activity is built by \<^verbatim>\<open>Activity().deserialize\<close>
  (in \<^verbatim>\<open>handle_request\<close>), so its entities are the Bot Framework's \<^verbatim>\<open>Entity\<close> objects,
  which carry the fields of the request but have no method \<^verbatim>\<open>get\<close>: the call
  \<^verbatim>\<open>entity.get(...)\<close> raises an AttributeError.
\<close>

datatype entity = Entity json

definition entity_get :: "entity \<Rightarrow> string \<Rightarrow> json \<Rightarrow> exn + json" where
  "entity_get e key dflt =
     Inl (Exception (quote ''Entity'' @ '' object has no attribute '' @ quote ''get''))"

text \<open>
  The fields of the incoming activity that the bot reads: its text, its entities, the
  recipient's display name (empty when there is none), the value submitted by a button,
  and the id of the conversation.
\<close>

datatype action_value =
    NoValue
  | ValueDecoded json
  | ValueUndecodable

record activity =
  activity_text :: "string option"
  activity_entities :: "entity list"
  recipient_name :: string
  activity_value :: action_value
  conversation_id :: "string option"

text \<open>The loop over the entities, collecting mention texts and mentioned names; an
  exception ends the collection and keeps what was collected before it.\<close>

fun collect_mentions :: "entity list \<Rightarrow> json list \<times> json list \<Rightarrow> json list \<times> json list" where
  "collect_mentions [] collected = collected"
| "collect_mentions (entity # entities) (mention_texts, mention_names) =
     (case entity_get entity ''type'' JNull of
        Inl e \<Rightarrow> (mention_texts, mention_names)
      | Inr entity_type \<Rightarrow>
          if entity_type = JStr ''mention'' then
            (case entity_get entity ''text'' JNull of
               Inl e \<Rightarrow> (mention_texts, mention_names)
             | Inr mention_text \<Rightarrow>
                 (let mention_texts' =
                        (if truthy mention_text then mention_texts @ [mention_text] else mention_texts)
                  in case ebind (entity_get entity ''mentioned'' (JDict []))
                            (\<lambda>mentioned. py_get mentioned ''name'' JNull) of
                       Inl e \<Rightarrow> (mention_texts', mention_names)
                     | Inr name \<Rightarrow>
                         collect_mentions entities
                           (mention_texts',
                            if truthy name then mention_names @ [name] else mention_names)))
          else collect_mentions entities (mention_texts, mention_names))"

text \<open>\<^verbatim>\<open>for mention_text in mention_texts: message = message.replace(mention_text, ' ')\<close>\<close>

fun remove_mentions :: "string \<Rightarrow> json list \<Rightarrow> exn + string" where
  "remove_mentions message [] = Inr message"
| "remove_mentions message (mention_text # mention_texts) =
     (case mention_text of
        JStr markup \<Rightarrow> remove_mentions (py_replace message markup '' '') mention_texts
      | _ \<Rightarrow> Inl (Exception (''replace() argument 1 must be str, not '' @ py_type_name mention_text)))"

text \<open>
  A match of \<^verbatim>\<open>NAME\b[:,-]*\<close> at the start of \<open>rest\<close>, letters compared without regard
  to case: the number of characters matched.
\<close>

definition match_name :: "string \<Rightarrow> string \<Rightarrow> nat option" where
  "match_name name rest =
     (let n = length name; after = drop n rest
      in if n \<le> length rest \<and> map lower_char (take n rest) = map lower_char name
            \<and> (is_word (last (take n rest)) \<noteq> (after \<noteq> [] \<and> is_word (hd after)))
         then Some (n + length (takeWhile (\<lambda>c. c \<in> set '':,-'') after))
         else None)"

text \<open>
  A match of \<^verbatim>\<open>^\s*@?NAME\b[:,-]*\<close> that takes \<open>k\<close> whitespace characters, or failing that
  fewer (\<^verbatim>\<open>\s*\<close> and \<^verbatim>\<open>@?\<close> are greedy and give back): the length of the match.
\<close>

fun match_leading_name :: "string \<Rightarrow> string \<Rightarrow> nat \<Rightarrow> nat option" where
  "match_leading_name name message k =
     (let rest = drop k message;
          with_at = (if rest \<noteq> [] \<and> hd rest = CHR ''@'' then match_name name (tl rest) else None)
      in case with_at of
           Some m \<Rightarrow> Some (k + 1 + m)
         | None \<Rightarrow>
             (case match_name name rest of
                Some m \<Rightarrow> Some (k + m)
              | None \<Rightarrow> (case k of 0 \<Rightarrow> None | Suc k' \<Rightarrow> match_leading_name name message k')))"

declare match_leading_name.simps [simp del]

text \<open>\<^verbatim>\<open>re.sub(pattern, ' ', message, flags=re.IGNORECASE)\<close> for a non-empty name: the
  pattern can match at the start only.\<close>

definition strip_name :: "string \<Rightarrow> string \<Rightarrow> string" where
  "strip_name name message =
     (case match_leading_name name message (length (takeWhile is_space message)) of
        Some n \<Rightarrow> CHR '' '' # drop n message
      | None \<Rightarrow> message)"

text \<open>The loop over \<^verbatim>\<open>possible_names\<close>, in the order \<open>names\<close> in which the set is visited.\<close>

fun strip_names :: "json list \<Rightarrow> string \<Rightarrow> exn + string" where
  "strip_names [] message = Inr message"
| "strip_names (name # names) message =
     (if \<not> truthy name then strip_names names message
      else case name of
             JStr n \<Rightarrow> strip_names names (strip_name n message)
           | _ \<Rightarrow> Inl (Exception (''decoding to str: need a bytes-like object, ''
                                  @ py_type_name name @ '' found'')))"

text \<open>The set \<^verbatim>\<open>possible_names\<close>: the mentioned names and the recipient's name.\<close>

definition possible_names :: "activity \<Rightarrow> json set" where
  "possible_names a =
     set (snd (collect_mentions (activity_entities a) ([], [])))
     \<union> (if recipient_name a \<noteq> [] then {JStr (recipient_name a)} else {})"

definition unhashable :: "json \<Rightarrow> bool" where
  "unhashable v = (case v of JList xs \<Rightarrow> True | JDict kvs \<Rightarrow> True | _ \<Rightarrow> False)"

text \<open>
  \<open>names\<close> is the order in which the loop visits the set \<^verbatim>\<open>possible_names\<close> (Python leaves
  the order of a set open).
\<close>

definition extract_user_message :: "json list \<Rightarrow> activity \<Rightarrow> exn + string" where
  "extract_user_message names a =
     (case activity_text a of
        None \<Rightarrow> Inr []
      | Some text \<Rightarrow>
          if text = [] then Inr []
          else
            (let mentions = collect_mentions (activity_entities a) ([], [])
             in ebind (remove_mentions text (fst mentions)) (\<lambda>message.
                ebind (case filter unhashable (snd mentions) of
                         [] \<Rightarrow> Inr (py_replace message ''<at>Databricks Genie</at>'' [])
                       | v # vs \<Rightarrow> Inl (Exception (''unhashable type: '' @ quote (py_type_name v))))
                  (\<lambda>message'.
                ebind (strip_names names message') (\<lambda>message''.
                Inr (py_strip message''))))))"

subsection \<open>Feedback (\<^verbatim>\<open>TeamsBot._handle_feedback\<close>)\<close>

text \<open>What the bot sends back into the chat.  Sending is taken to succeed.\<close>

datatype sent =
    Text string
  | Typing
  | FeedbackCard json json

definition cannot_record_feedback :: string where
  "cannot_record_feedback = ''Sorry, couldn'' @ [CHR 0x27] @ ''t record your feedback.''"

definition feedback_not_recorded :: string where
  "feedback_not_recorded = ''Sorry, couldn'' @ [CHR 0x27] @ ''t record feedback.''"

definition handle_feedback :: "remote \<Rightarrow> json \<Rightarrow> event list \<times> sent list" where
  "handle_feedback r feedback_data =
     (case ebind (py_get feedback_data ''rating'' JNull) (\<lambda>rating.
           ebind (py_get feedback_data ''conversation_id'' JNull) (\<lambda>conv_id.
           ebind (py_get feedback_data ''message_id'' JNull) (\<lambda>msg_id.
           Inr (rating, conv_id, msg_id)))) of
        Inl e \<Rightarrow> ([], [Text ''Sorry, an error occurred while recording feedback.''])
      | Inr (rating, conv_id, msg_id) \<Rightarrow>
          if \<not> (truthy rating \<and> truthy conv_id \<and> truthy msg_id)
          then ([], [Text cannot_record_feedback])
          else
            (let (requests, result) = send_feedback r conv_id msg_id rating
             in (SendFeedback conv_id msg_id rating # requests,
                 [Text (case result of
                          FeedbackSuccess \<Rightarrow> ''Thanks for your feedback!''
                        | FeedbackError error \<Rightarrow> feedback_not_recorded)])))"

subsection \<open>Incoming messages (\<^verbatim>\<open>TeamsBot._on_message_activity\<close>)\<close>

text \<open>The conversation map \<^verbatim>\<open>self.conversations\<close>: local conversation id to the remote one.\<close>

type_synonym conversations = "string \<Rightarrow> json option"

text \<open>\<^verbatim>\<open>feedback_data.get("action") == "feedback"\<close> on the submitted value; a value that
  cannot be decoded, or is no dict, is no feedback.\<close>

definition is_feedback :: "activity \<Rightarrow> bool" where
  "is_feedback a =
     (case activity_value a of
        ValueDecoded feedback_data \<Rightarrow>
          (case py_get feedback_data ''action'' JNull of
             Inl e \<Rightarrow> False
           | Inr action \<Rightarrow> action = JStr ''feedback'')
      | _ \<Rightarrow> False)"

definition feedback_data_of :: "activity \<Rightarrow> json" where
  "feedback_data_of a = (case activity_value a of ValueDecoded feedback_data \<Rightarrow> feedback_data | _ \<Rightarrow> JNull)"

text \<open>\<^verbatim>\<open>_send_response_with_feedback\<close>: the text, then the card when both ids are truthy.\<close>

definition send_response_with_feedback :: "string \<Rightarrow> json \<Rightarrow> json \<Rightarrow> sent list" where
  "send_response_with_feedback response_text conv_id msg_id =
     Text response_text
     # (if \<not> truthy conv_id \<or> \<not> truthy msg_id then [] else [FeedbackCard conv_id msg_id])"

definition error_reply :: "string \<Rightarrow> string" where
  "error_reply error_message =
     ''Sorry, I encountered an error: '' @ error_message @ [CHR 0x0A, CHR 0x0A]
     @ ''Please make sure your Databricks Genie Space is properly configured.''"

text \<open>Sending the result of the client operation back to the user.\<close>

definition deliver :: "genie_result \<Rightarrow> sent list" where
  "deliver result =
     (case result of
        GenieSuccess conv_id msg_id response_text \<Rightarrow>
          send_response_with_feedback response_text conv_id msg_id
      | GenieError error_message \<Rightarrow> [Text (error_reply error_message)])"

text \<open>\<^verbatim>\<open>result.get("conversation_id")\<close>\<close>

definition result_conversation_id :: "genie_result \<Rightarrow> json" where
  "result_conversation_id result =
     (case result of GenieSuccess conv_id msg_id response_text \<Rightarrow> conv_id | GenieError error \<Rightarrow> JNull)"

definition local_conversation_id :: "activity \<Rightarrow> string" where
  "local_conversation_id a =
     (case conversation_id a of
        Some c \<Rightarrow> if c \<noteq> [] then c else ''default''
      | None \<Rightarrow> ''default'')"

text \<open>
  The handler: from the conversation map before the activity to the map after it, the
  trace of client operations, and what was sent to the user.
\<close>

definition on_message_activity ::
  "json list \<Rightarrow> remote \<Rightarrow> conversations \<Rightarrow> activity \<Rightarrow> conversations \<times> event list \<times> sent list" where
  "on_message_activity names r conversations a =
     (if is_feedback a then
        (let (events, out) = handle_feedback r (feedback_data_of a) in (conversations, events, out))
      else
        (case extract_user_message names a of
           Inl e \<Rightarrow>
             (conversations, [],
              [Text ''Sorry, I encountered an unexpected error. Please try again.''])
         | Inr user_message \<Rightarrow>
             if user_message = [] then
               (conversations, [], [Text ''Please send me a question about your data.''])
             else
               (let conversation_id = local_conversation_id a;
                    genie_conversation_id =
                      (case conversations conversation_id of Some g \<Rightarrow> g | None \<Rightarrow> JNull)
                in if truthy genie_conversation_id then
                     (let result = continue_conversation r genie_conversation_id user_message
                      in (conversations,
                          [ContinueConversation genie_conversation_id user_message],
                          Typing # deliver result))
                   else
                     (let result = ask_question r user_message
                      in ((if truthy (result_conversation_id result)
                           then conversations(conversation_id \<mapsto> result_conversation_id result)
                           else conversations),
                          [AskQuestion user_message],
                          Typing # deliver result)))))"

section \<open>The table as the specification words it\<close>

text \<open>
  For comparison with \<open>format_query_result\<close>, the table written down from the
  specification's sentences rather than from the loops of the source: a missing cell is
  \<open>NULL\<close>; a column is as wide as the widest of its header and its cells in the rows shown;
  cells are left-justified and joined by \<open> | \<close>; the rule is made of \<open>-\<close> and joined by
  \<open>-+-\<close>; at most 10 rows are shown, and a suffix counts the rest.
\<close>

definition spec_cell :: "json \<Rightarrow> string" where
  "spec_cell v = (if v = JNull then ''NULL'' else py_str v)"

definition spec_pad :: "string \<Rightarrow> nat \<Rightarrow> string" where
  "spec_pad s w = s @ replicate (w - length s) CHR '' ''"

definition spec_widths :: "json list \<Rightarrow> json list list \<Rightarrow> nat list" where
  "spec_widths names rows =
     map (\<lambda>i. Max (set (length (py_str (names ! i))
                         # map (\<lambda>row. length (spec_cell (row ! i)))
                             (filter (\<lambda>row. i < length row) rows))))
       [0..<length names]"

definition spec_line :: "nat list \<Rightarrow> string list \<Rightarrow> string" where
  "spec_line widths cells = py_join '' | '' (map (\<lambda>(s, w). spec_pad s w) (zip cells widths))"

definition spec_table :: "json list \<Rightarrow> json list list \<Rightarrow> string" where
  "spec_table names rows =
     (let shown = take 10 rows;
          widths = spec_widths names shown
      in py_join [CHR 0x0A]
           ([[CHR 0x0A, CHR 0x60, CHR 0x60, CHR 0x60],
             spec_line widths (map py_str names),
             py_join ''-+-'' (map (\<lambda>w. replicate w CHR ''-'') widths)]
            @ map (\<lambda>row. spec_line widths (map spec_cell row)) shown
            @ [[CHR 0x60, CHR 0x60, CHR 0x60]]
            @ (if length rows > 10
               then [[CHR 0x0A] @ ''('' @ show_nat (length rows - 10) @ '' more rows...)'']
               else [])))"

section \<open>Properties of the table rendering\<close>

text \<open>
  Claim C6 (as amended).  For the query result with column names \<open>id\<close>, \<open>name\<close> and the
  rows \<open>[1, "a"]\<close> and \<open>[2, None]\<close>, the rendering is exactly: the opening code fence, the
  header \<open>id | name\<close>, the separator \<open>---+-----\<close> (segments of the column widths 2 and 4),
  the rows \<open>1  | a   \<close> and \<open>2  | NULL\<close> (each cell left-justified to its column width,
  the missing cell as \<open>NULL\<close>), the closing fence, and no suffix about further rows.
\<close>

theorem format_query_result_two_rows:
  "format_query_result
     (JDict [(''statement_response'', JDict [
        (''manifest'', JDict [(''schema'', JDict [(''columns'',
           JList [JDict [(''name'', JStr ''id'')], JDict [(''name'', JStr ''name'')]])])]),
        (''result'', JDict [(''data_array'',
           JList [JList [JInt 1, JStr ''a''], JList [JInt 2, JNull]])])])])
   = py_join [CHR 0x0A]
       [[CHR 0x0A] @ code_fence, ''id | name'', ''---+-----'', ''1  | a   '', ''2  | NULL'',
        code_fence]"
  by code_simp

text \<open>
  Claim C6 as stated fails: the rendering of that query result contains neither
  \<open>1 | a\<close> nor \<open>2 | NULL\<close>, because the first column is padded to the width of its
  header \<open>id\<close>.
\<close>

theorem format_query_result_two_rows_unpadded_absent:
  "\<not> is_substring ''1 | a''
       (format_query_result
          (JDict [(''statement_response'', JDict [
             (''manifest'', JDict [(''schema'', JDict [(''columns'',
                JList [JDict [(''name'', JStr ''id'')], JDict [(''name'', JStr ''name'')]])])]),
             (''result'', JDict [(''data_array'',
                JList [JList [JInt 1, JStr ''a''], JList [JInt 2, JNull]])])])]))
   \<and> \<not> is_substring ''2 | NULL''
       (format_query_result
          (JDict [(''statement_response'', JDict [
             (''manifest'', JDict [(''schema'', JDict [(''columns'',
                JList [JDict [(''name'', JStr ''id'')], JDict [(''name'', JStr ''name'')]])])]),
             (''result'', JDict [(''data_array'',
                JList [JList [JInt 1, JStr ''a''], JList [JInt 2, JNull]])])])]))"
  by code_simp

text \<open>The column names of a manifest that lists them.\<close>

lemma column_names_named:
  "column_names i (map (\<lambda>n. JDict [(''name'', n)]) names) = Inr names"
  by (induction names arbitrary: i) (simp_all add: py_get_def)

lemma manifest_columns_named:
  "manifest_columns
     (JDict [(''manifest'', JDict [(''schema'', JDict [(''columns'',
                JList (map (\<lambda>n. JDict [(''name'', n)]) names))])]),
             (''result'', r)])
   = Inr names"
  by (auto simp: manifest_columns_def py_contains_def py_getitem_def py_iter_def
        column_names_named)

text \<open>The width loops compute, column by column, the largest of the header's width and the
  widths of the cells in that column.\<close>

lemma length_widen_row [simp]: "length (widen_row ws k vals) = length ws"
  by (induction vals arbitrary: ws k) simp_all

lemma widen_row_nth:
  "i < length ws \<Longrightarrow>
   widen_row ws k vals ! i
   = (if k \<le> i \<and> i < k + length vals then max (ws ! i) (cell_width (vals ! (i - k))) else ws ! i)"
proof (induction vals arbitrary: ws k)
  case Nil
  then show ?case by simp
next
  case (Cons v vs)
  let ?ws = "if k < length ws then ws[k := max (ws ! k) (cell_width v)] else ws"
  have len: "length ?ws = length ws" by simp
  from Cons.prems have i: "i < length ?ws" by simp
  have "widen_row ws k (v # vs) ! i = widen_row ?ws (k + 1) vs ! i" by simp
  also have "\<dots> = (if k + 1 \<le> i \<and> i < k + 1 + length vs
                     then max (?ws ! i) (cell_width (vs ! (i - (k + 1)))) else ?ws ! i)"
    by (rule Cons.IH [OF i])
  also have "\<dots> = (if k \<le> i \<and> i < k + length (v # vs)
                     then max (ws ! i) (cell_width ((v # vs) ! (i - k))) else ws ! i)"
  proof -
    consider "i < k" | "i = k" | "k < i" by arith
    then show ?thesis
    proof cases
      case 1
      with Cons.prems show ?thesis by (simp add: nth_list_update)
    next
      case 2
      with Cons.prems show ?thesis by simp
    next
      case 3
      then have "(v # vs) ! (i - k) = vs ! (i - (k + 1))" by (simp add: nth_Cons')
      with 3 Cons.prems show ?thesis by (auto simp: nth_list_update)
    qed
  qed
  finally show ?case .
qed

lemma widen_rows_lists:
  "widen_rows ws (map JList rows)
   = Inr (map (\<lambda>i. fold (\<lambda>row w. if i < length row then max w (cell_width (row ! i)) else w)
                       rows (ws ! i))
            [0..<length ws])"
proof (induction rows arbitrary: ws)
  case Nil
  then show ?case by (simp add: map_nth)
next
  case (Cons row rows)
  have "widen_rows ws (map JList (row # rows)) = widen_rows (widen_row ws 0 row) (map JList rows)"
    by (simp add: py_iter_def)
  also have "\<dots> = Inr (map (\<lambda>i. fold (\<lambda>row w. if i < length row then max w (cell_width (row ! i)) else w)
                       rows (widen_row ws 0 row ! i)) [0..<length ws])"
    by (simp add: Cons.IH)
  also have "\<dots> = Inr (map (\<lambda>i. fold (\<lambda>row w. if i < length row then max w (cell_width (row ! i)) else w)
                       (row # rows) (ws ! i)) [0..<length ws])"
    by (simp add: widen_row_nth)
  finally show ?case .
qed

lemma Max_insert_max:
  "finite S \<Longrightarrow> Max (insert (max a b) S) = Max (insert a (insert b S))"
  by (cases "S = {}") (simp_all add: max.assoc)

lemma fold_max_cells:
  "fold (\<lambda>row w. if i < length row then max w (c row) else w) rows a
   = Max (set (a # map c (filter (\<lambda>row. i < length row) rows)))"
proof (induction rows arbitrary: a)
  case Nil
  then show ?case by simp
next
  case (Cons row rows)
  show ?case
  proof (cases "i < length row")
    case True
    then show ?thesis
      using Cons.IH [of "max a (c row)"] Max_insert_max [of "set (map c (filter (\<lambda>row. i < length row) rows))" a "c row"]
      by simp
  next
    case False
    then show ?thesis using Cons.IH [of a] by simp
  qed
qed

lemma cell_width_spec: "cell_width v = length (spec_cell v)"
  by (simp add: cell_width_def spec_cell_def)

lemma cell_str_spec: "cell_str v = spec_cell v"
  by (simp add: cell_str_def spec_cell_def)

lemma ljust_spec: "ljust s w = spec_pad s w"
  by (simp add: ljust_def spec_pad_def)

lemma widen_rows_spec:
  "widen_rows (map (\<lambda>col. length (py_str col)) names) (map JList rows)
   = Inr (spec_widths names rows)"
  by (simp add: widen_rows_lists fold_max_cells cell_width_spec spec_widths_def)

text \<open>The row loop pairs the cells with the column widths and pads each cell.\<close>

lemma format_cells_zip:
  "format_cells ws k vals = map (\<lambda>(v, w). ljust (cell_str v) w) (zip vals (drop k ws))"
proof (induction vals arbitrary: k)
  case Nil
  then show ?case by simp
next
  case (Cons v vs)
  show ?case
  proof (cases "k < length ws")
    case True
    then have "drop k ws = ws ! k # drop (k + 1) ws" by (simp add: Cons_nth_drop_Suc)
    with True Cons.IH [of "k + 1"] show ?thesis by simp
  next
    case False
    with Cons.IH [of "k + 1"] show ?thesis by simp
  qed
qed

lemma format_cells_spec:
  "py_join '' | '' (format_cells ws 0 row) = spec_line ws (map spec_cell row)"
  by (simp add: format_cells_zip spec_line_def zip_map1 cell_str_spec ljust_spec
        case_prod_unfold comp_def)

lemma format_rows_lists:
  "format_rows ws (map JList rows)
   = Inr (map (\<lambda>row. spec_line ws (map spec_cell row)) rows)"
  by (induction rows) (simp_all add: py_iter_def format_cells_spec)

lemma header_line_spec: "header_line names ws = spec_line ws (map py_str names)"
  by (simp add: header_line_def spec_line_def zip_map1 ljust_spec case_prod_unfold comp_def)

text \<open>For rows that are lists, the formatter's table is the specification's table.\<close>

lemma format_table_lists:
  "format_table names (JList (map JList rows))
   = ebind (if names = []
            then ebind (py_first (JList (map JList rows)))
                   (\<lambda>row0. ebind (py_len row0) (\<lambda>n. Inr (default_columns n)))
            else Inr names)
       (\<lambda>columns. Inr (spec_table columns rows))"
proof -
  have f10: "py_first10 (JList (map JList rows)) = Inr (map JList (take 10 rows))"
    by (simp add: py_first10_def take_map)
  have ln: "py_len (JList (map JList rows)) = Inr (length rows)"
    by (simp add: py_len_def)
  have body: "ebind (py_first10 (JList (map JList rows))) (\<lambda>shown.
     ebind (widen_rows (map (\<lambda>col. length (py_str col)) columns) shown) (\<lambda>col_widths.
     ebind (format_rows col_widths shown) (\<lambda>lines.
     ebind (py_len (JList (map JList rows))) (\<lambda>n.
     Inr (py_join [CHR 0x0A]
            ([[CHR 0x0A] @ code_fence, header_line columns col_widths, separator_line col_widths]
             @ lines @ [code_fence]
             @ (if n > 10 then [more_rows_line (n - 10)] else []))))))) 
     = Inr (spec_table columns rows)" for columns
    unfolding f10 ln widen_rows_spec format_rows_lists ebind_simps header_line_spec
    by (simp only: spec_table_def Let_def separator_line_def code_fence_def more_rows_line_def
          append_Cons append_Nil)
  show ?thesis
    unfolding format_table_def body ..
qed

lemma format_table_spec:
  assumes "names \<noteq> []"
  shows "format_table names (JList (map JList rows)) = Inr (spec_table names rows)"
  using assms by (simp add: format_table_lists)

lemma format_table_spec_default:
  assumes "rows \<noteq> []"
  shows "format_table [] (JList (map JList rows))
         = Inr (spec_table (map (\<lambda>i. JStr (''Column '' @ show_nat (i + 1))) [0..<length (hd rows)]) rows)"
proof -
  from assms obtain row rest where rows: "rows = row # rest" by (cases rows) auto
  have "py_first (JList (map JList rows)) = Inr (JList (hd rows))"
    by (simp add: rows py_first_def)
  moreover have "py_len (JList (hd rows)) = Inr (length (hd rows))"
    by (simp add: py_len_def)
  ultimately show ?thesis
    by (simp add: format_table_lists default_columns_def)
qed

lemma format_query_result_spec:
  assumes "rows \<noteq> []"
  shows "format_query_result
           (JDict [(''statement_response'', JDict [
              (''manifest'', JDict [(''schema'', JDict [(''columns'',
                 JList (map (\<lambda>n. JDict [(''name'', n)]) names))])]),
              (''result'', JDict [(''data_array'', JList (map JList rows))])])])
         = spec_table
             (if names = []
              then map (\<lambda>i. JStr (''Column '' @ show_nat (i + 1))) [0..<length (hd rows)]
              else names)
             rows"
proof -
  have body: "format_query_result_body
           (JDict [(''statement_response'', JDict [
              (''manifest'', JDict [(''schema'', JDict [(''columns'',
                 JList (map (\<lambda>n. JDict [(''name'', n)]) names))])]),
              (''result'', JDict [(''data_array'', JList (map JList rows))])])])
        = format_table names (JList (map JList rows))"
    using assms
    by (simp add: format_query_result_body_def py_contains_def py_getitem_def
          manifest_columns_named)
  show ?thesis
  proof (cases "names = []")
    case True
    with format_table_spec_default [OF assms] show ?thesis
      unfolding format_query_result_def body by simp
  next
    case False
    with format_table_spec [OF False, of rows] show ?thesis
      unfolding format_query_result_def body by simp
  qed
qed

text \<open>
  Claim C7.  For every query result with the column names \<open>names\<close> and more than 10 rows
  (each row a list of cells), the rendering consists of exactly these lines: the opening
  fence, the header, the rule, one line for each of the first 10 rows and for no other row,
  the closing fence, and the suffix \<open>(K more rows...)\<close> with \<open>K\<close> the number of rows minus 10.
  Every line is padded to the column widths, and those are computed from the header and the
  first 10 rows only.  (Without column names the headers are \<open>Column 1\<close>, \<open>Column 2\<close>, ...,
  one for each cell of the first row.)
\<close>

theorem format_query_result_first_ten_rows:
  assumes "length rows > 10"
  shows "format_query_result
           (JDict [(''statement_response'', JDict [
              (''manifest'', JDict [(''schema'', JDict [(''columns'',
                 JList (map (\<lambda>n. JDict [(''name'', n)]) names))])]),
              (''result'', JDict [(''data_array'', JList (map JList rows))])])])
         = (let columns = (if names = []
                           then map (\<lambda>i. JStr (''Column '' @ show_nat (i + 1)))
                                  [0..<length (hd rows)]
                           else names);
                shown = take 10 rows;
                widths = spec_widths columns shown
            in py_join [CHR 0x0A]
                 ([[CHR 0x0A, CHR 0x60, CHR 0x60, CHR 0x60],
                   spec_line widths (map py_str columns),
                   py_join ''-+-'' (map (\<lambda>w. replicate w CHR ''-'') widths)]
                  @ map (\<lambda>row. spec_line widths (map spec_cell row)) shown
                  @ [[CHR 0x60, CHR 0x60, CHR 0x60],
                     [CHR 0x0A] @ ''('' @ show_nat (length rows - 10) @ '' more rows...)'']))"
proof -
  from assms have "rows \<noteq> []" by auto
  from format_query_result_spec [OF this, of names] assms show ?thesis
    by (simp add: spec_table_def Let_def)
qed

text \<open>Fifteen rows: the first ten are rendered, the long eleventh cell does not widen the
  column, and the suffix is \<open>(5 more rows...)\<close>.\<close>

theorem format_query_result_fifteen_rows:
  "length [[JInt 101], [JInt 102], [JInt 103], [JInt 104], [JInt 105], [JInt 106], [JInt 107], [JInt 108],
           [JInt 109], [JInt 110], [JStr ''eleven''], [JInt 112], [JInt 113], [JInt 114], [JInt 115]] > 10
   \<and> format_query_result
       (JDict [(''statement_response'', JDict [
          (''manifest'', JDict [(''schema'', JDict [(''columns'',
             JList (map (\<lambda>n. JDict [(''name'', n)]) [JStr ''n'']))])]),
          (''result'', JDict [(''data_array'', JList (map JList
             [[JInt 101], [JInt 102], [JInt 103], [JInt 104], [JInt 105], [JInt 106], [JInt 107], [JInt 108],
              [JInt 109], [JInt 110], [JStr ''eleven''], [JInt 112], [JInt 113], [JInt 114],
              [JInt 115]]))])])])
     = py_join [CHR 0x0A]
         [[CHR 0x0A, CHR 0x60, CHR 0x60, CHR 0x60], ''n  '', ''---'',
          ''101'', ''102'', ''103'', ''104'', ''105'', ''106'', ''107'', ''108'', ''109'', ''110'',
          [CHR 0x60, CHR 0x60, CHR 0x60], [CHR 0x0A] @ ''(5 more rows...)'']"
proof -
  let ?rows = "[[JInt 101], [JInt 102], [JInt 103], [JInt 104], [JInt 105], [JInt 106], [JInt 107], [JInt 108],
           [JInt 109], [JInt 110], [JStr ''eleven''], [JInt 112], [JInt 113], [JInt 114], [JInt 115]]"
  have len: "length ?rows > 10" by simp
  have rhs: "(let columns = (if [JStr ''n''] = []
                           then map (\<lambda>i. JStr (''Column '' @ show_nat (i + 1)))
                                  [0..<length (hd ?rows)]
                           else [JStr ''n'']);
                shown = take 10 ?rows;
                widths = spec_widths columns shown
            in py_join [CHR 0x0A]
                 ([[CHR 0x0A, CHR 0x60, CHR 0x60, CHR 0x60],
                   spec_line widths (map py_str columns),
                   py_join ''-+-'' (map (\<lambda>w. replicate w CHR ''-'') widths)]
                  @ map (\<lambda>row. spec_line widths (map spec_cell row)) shown
                  @ [[CHR 0x60, CHR 0x60, CHR 0x60],
                     [CHR 0x0A] @ ''('' @ show_nat (length ?rows - 10) @ '' more rows...)'']))
     = py_join [CHR 0x0A]
         [[CHR 0x0A, CHR 0x60, CHR 0x60, CHR 0x60], ''n  '', ''---'',
          ''101'', ''102'', ''103'', ''104'', ''105'', ''106'', ''107'', ''108'', ''109'', ''110'',
          [CHR 0x60, CHR 0x60, CHR 0x60], [CHR 0x0A] @ ''(5 more rows...)'']"
    by code_simp
  from format_query_result_first_ten_rows [OF len, of "[JStr ''n'']"] len
  show ?thesis unfolding rhs by blast
qed

section \<open>Properties of the answer assembly\<close>

lemma py_eq_str [simp]: "py_eq (JStr t) q = (q = JStr t)"
  by simp

text \<open>
  Claim C5 (as amended).  When the loop reaches an attachment whose extracted explanatory
  text is the string \<open>t\<close>, it appends \<open>t\<close> to the parts of the answer if and only if \<open>t\<close> is
  non-empty, differs from the original user question and is longer than 10 characters;
  otherwise the text is skipped.  The loop then goes on with the attachment's query
  result and the remaining attachments.
\<close>

theorem explanatory_text_filter:
  assumes "attachment_text a = JStr t"
  shows "extract_attachments fetch user_question i (JDict a # attachments) parts =
         extract_attachments fetch user_question (i + 1) attachments
           (add_query_result (fetch i) a
              (if t \<noteq> [] \<and> JStr t \<noteq> user_question \<and> length t > 10
               then parts @ [JStr t] else parts))"
  using assms by (auto simp: add_explanation_def py_len_def)

text \<open>A 13-character explanation that differs from the question is kept.\<close>

theorem explanatory_text_filter_witness:
  "attachment_text [(''text'', JStr ''Revenue grew.'')] = JStr ''Revenue grew.''
   \<and> extract_attachments (\<lambda>i. FetchRaises (Exception [])) (JStr ''What is revenue?'') 0
        [JDict [(''text'', JStr ''Revenue grew.'')]] []
      = Inr [JStr ''Revenue grew.'']"
proof -
  have a: "attachment_text [(''text'', JStr ''Revenue grew.'')] = JStr ''Revenue grew.''"
    by (simp add: attachment_text_def)
  show ?thesis
    using a explanatory_text_filter [OF a, of "\<lambda>i. FetchRaises (Exception [])" "JStr ''What is revenue?''" 0 "[]" "[]"]
    by (simp add: add_query_result_def attachment_id_def)
qed

text \<open>
  Claim C5 as stated fails: an explanatory text of exactly 10 characters is non-empty, not
  shorter than 10 characters and different from the question, yet it is left out (here
  the answer is the fixed apology, nothing having been extracted).
\<close>

theorem ten_character_text_excluded:
  "length ''0123456789'' = 10 \<and> ''0123456789'' \<noteq> ''What is revenue?''
   \<and> extract_response_with_attachments (\<lambda>i. FetchRaises (Exception []))
        (JDict [(''content'', JStr ''What is revenue?''),
                (''attachments'', JList [JDict [(''text'', JDict [(''content'', JStr ''0123456789'')])]])])
      = Inr no_content_message"
  by code_simp

text \<open>The assembly raises for no payload that keeps to the attachment schema: a payload
  whose attachments, if any, form a list in which every attachment's explanatory text is
  a string or absent.\<close>

lemma add_explanation_strings:
  assumes "\<forall>p\<in>set parts. \<exists>s. p = JStr s"
    and "\<not> truthy text_content \<or> (\<exists>s. text_content = JStr s)"
  shows "\<exists>parts'. add_explanation user_question text_content parts = Inr parts'
           \<and> (\<forall>p\<in>set parts'. \<exists>s. p = JStr s)"
  using assms by (auto simp: add_explanation_def py_len_def)

lemma add_query_result_strings:
  assumes "\<forall>p\<in>set parts. \<exists>s. p = JStr s"
  shows "\<forall>p\<in>set (add_query_result reply a parts). \<exists>s. p = JStr s"
  using assms
  by (auto simp: add_query_result_def Let_def split: fetch_reply.splits sum.splits)

lemma extract_attachments_strings:
  assumes "\<forall>p\<in>set parts. \<exists>s. p = JStr s"
    and "\<forall>a. JDict a \<in> set attachments \<longrightarrow>
           \<not> truthy (attachment_text a) \<or> (\<exists>s. attachment_text a = JStr s)"
  shows "\<exists>parts'. extract_attachments fetch user_question i attachments parts = Inr parts'
           \<and> (\<forall>p\<in>set parts'. \<exists>s. p = JStr s)"
  using assms
proof (induction attachments arbitrary: i parts)
  case Nil
  then show ?case by simp
next
  case (Cons attachment attachments)
  show ?case
  proof (cases attachment)
    case (JDict a)
    with Cons.prems(2) have "\<not> truthy (attachment_text a) \<or> (\<exists>s. attachment_text a = JStr s)"
      by simp
    from add_explanation_strings [OF Cons.prems(1) this, of user_question]
    obtain parts' where p: "add_explanation user_question (attachment_text a) parts = Inr parts'"
      "\<forall>p\<in>set parts'. \<exists>s. p = JStr s" by blast
    from add_query_result_strings [OF p(2)]
    have "\<forall>p\<in>set (add_query_result (fetch i) a parts'). \<exists>s. p = JStr s" .
    from Cons.IH [OF this, of "i + 1"] Cons.prems(2) JDict p(1) show ?thesis by simp
  qed (use Cons in simp_all)
qed

lemma join_values_strings:
  "\<forall>p\<in>set parts. \<exists>s. p = JStr s \<Longrightarrow> \<exists>strs. join_values sep i parts = Inr strs"
proof (induction parts arbitrary: i)
  case Nil
  then show ?case by simp
next
  case (Cons p parts)
  then obtain s where "p = JStr s" by auto
  moreover from Cons obtain strs where "join_values sep (i + 1) parts = Inr strs" by fastforce
  ultimately show ?case by simp
qed

lemma assembly_returns:
  assumes "map_of kvs ''attachments'' = None
           \<or> (\<exists>attachments. map_of kvs ''attachments'' = Some (JList attachments)
                \<and> (\<forall>a. JDict a \<in> set attachments \<longrightarrow>
                      \<not> truthy (attachment_text a) \<or> (\<exists>s. attachment_text a = JStr s)))"
  shows "\<exists>answer. extract_response_with_attachments fetch (JDict kvs) = Inr answer"
proof -
  let ?q = "case map_of kvs ''content'' of None \<Rightarrow> JStr [] | Some v \<Rightarrow> v"
  from assms show ?thesis
  proof
    assume "map_of kvs ''attachments'' = None"
    then show ?thesis
      by (simp add: extract_response_with_attachments_def py_get_def py_contains_def)
  next
    assume "\<exists>attachments. map_of kvs ''attachments'' = Some (JList attachments)
                \<and> (\<forall>a. JDict a \<in> set attachments \<longrightarrow>
                      \<not> truthy (attachment_text a) \<or> (\<exists>s. attachment_text a = JStr s))"
    then obtain attachments where a: "map_of kvs ''attachments'' = Some (JList attachments)"
      and wf: "\<forall>a. JDict a \<in> set attachments \<longrightarrow>
                      \<not> truthy (attachment_text a) \<or> (\<exists>s. attachment_text a = JStr s)"
      by blast
    from extract_attachments_strings [OF _ wf, of "[]" fetch ?q 0]
    obtain parts where p: "extract_attachments fetch ?q 0 attachments [] = Inr parts"
      "\<forall>p\<in>set parts. \<exists>s. p = JStr s" by auto
    from join_values_strings [OF p(2), of "[CHR 0x0A, CHR 0x0A]" 0]
    obtain strs where "join_values [CHR 0x0A, CHR 0x0A] 0 parts = Inr strs" by blast
    with a p(1) show ?thesis
      by (cases attachments)
         (simp_all add: extract_response_with_attachments_def py_get_def py_contains_def
            py_getitem_def py_iter_def py_join_values_def)
  qed
qed

section \<open>Properties of polling\<close>

lemma poll_loop_retry:
  assumes "attempt < max_attempts" "poll_attempt (replies attempt) = Retry"
  shows "poll_loop replies max_attempts attempt sleeps
         = poll_loop replies max_attempts (attempt + 1) (sleeps + 1)"
  using assms by (subst poll_loop.simps) simp

lemma poll_loop_return:
  assumes "attempt < max_attempts" "poll_attempt (replies attempt) = Return t"
  shows "poll_loop replies max_attempts attempt sleeps = (sleeps, Inr t)"
  using assms by (subst poll_loop.simps) simp

lemma poll_loop_no_terminal:
  assumes "\<forall>i. attempt \<le> i \<and> i < max_attempts \<longrightarrow>
             poll_attempt (replies i) = Retry
             \<or> (i < max_attempts - 1 \<and> (\<exists>e. poll_attempt (replies i) = Raise e))"
    and "attempt \<le> max_attempts"
  shows "poll_loop replies max_attempts attempt sleeps
         = (sleeps + (max_attempts - attempt), Inr timeout_message)"
  using assms
proof (induction replies max_attempts attempt sleeps rule: poll_loop.induct)
  case (1 replies max_attempts attempt sleeps)
  show ?case
  proof (cases "attempt < max_attempts")
    case False
    with "1.prems" show ?thesis by (subst poll_loop.simps) simp
  next
    case True
    from "1.prems"(1) True have
      step: "poll_attempt (replies attempt) = Retry
             \<or> (attempt < max_attempts - 1 \<and> (\<exists>e. poll_attempt (replies attempt) = Raise e))"
      by simp
    have rest: "\<forall>i. attempt + 1 \<le> i \<and> i < max_attempts \<longrightarrow>
             poll_attempt (replies i) = Retry
             \<or> (i < max_attempts - 1 \<and> (\<exists>e. poll_attempt (replies i) = Raise e))"
      using "1.prems"(1) by simp
    from step show ?thesis
    proof
      assume r: "poll_attempt (replies attempt) = Retry"
      have "poll_loop replies max_attempts (attempt + 1) (sleeps + 1)
            = (sleeps + 1 + (max_attempts - (attempt + 1)), Inr timeout_message)"
        using "1.IH"(1) [OF True r rest] True by simp
      with True r show ?thesis by (subst poll_loop.simps) simp
    next
      assume "attempt < max_attempts - 1 \<and> (\<exists>e. poll_attempt (replies attempt) = Raise e)"
      then obtain e where lt: "attempt < max_attempts - 1"
        and r: "poll_attempt (replies attempt) = Raise e" by blast
      have "poll_loop replies max_attempts (attempt + 1) (sleeps + 1)
            = (sleeps + 1 + (max_attempts - (attempt + 1)), Inr timeout_message)"
        using "1.IH"(2) [OF True r lt rest] True by simp
      with True r lt show ?thesis by (subst poll_loop.simps) simp
    qed
  qed
qed

lemma failure_not_timeout: "failure_message m \<noteq> timeout_message"
  by (simp add: failure_message_def timeout_message_def)


lemma poll_loop_unknown_statuses:
  assumes "\<forall>i. attempt \<le> i \<and> i < max_attempts \<longrightarrow> poll_attempt (replies i) = Retry"
    and "attempt \<le> max_attempts"
  shows "poll_loop replies max_attempts attempt sleeps
         = (sleeps + (max_attempts - attempt), Inr timeout_message)"
  using assms by (intro poll_loop_no_terminal) auto

lemma poll_attempt_unknown:
  assumes "py_get data ''status'' (JStr []) = Inr status"
    and "status \<notin> set [JStr ''COMPLETED'', JStr ''SUCCESS'', JStr ''FINISHED'']"
    and "status \<notin> set [JStr ''FAILED'', JStr ''ERROR'']"
  shows "poll_attempt (PollData data fetch) = Retry"
  using assms by (simp add: poll_attempt_def)

text \<open>
  Claim C1.  Let the reply to polling attempt \<open>attempt\<close> (within the budget) be a payload
  with status \<open>status\<close>.
  \<^item> If the status is \<open>COMPLETED\<close>, \<open>SUCCESS\<close> or \<open>FINISHED\<close> and assembling the payload gives
    \<open>answer\<close>, polling returns \<open>answer\<close> on that attempt: no further sleep, no further request.
  \<^item> For any other status the attempt is a retry, unless the status is \<open>FAILED\<close> or \<open>ERROR\<close>.
  \<^item> If the status is none of the recognised terminal or in-progress statuses, polling
    sleeps one interval and goes on with the next attempt.
  \<^item> If every remaining attempt has such an unknown status, polling runs through the whole
    budget, one sleep per attempt, and ends with the timeout message.
\<close>

theorem poll_terminal_success_and_unknown_status:
  assumes "attempt < max_attempts"
    and "replies attempt = PollData data fetch"
    and "py_get data ''status'' (JStr []) = Inr status"
  shows "(status \<in> set [JStr ''COMPLETED'', JStr ''SUCCESS'', JStr ''FINISHED'']
            \<and> extract_response_with_attachments fetch data = Inr answer
          \<longrightarrow> poll_loop replies max_attempts attempt sleeps = (sleeps, Inr answer))
       \<and> (status \<notin> set [JStr ''COMPLETED'', JStr ''SUCCESS'', JStr ''FINISHED'']
          \<longrightarrow> poll_attempt (replies attempt) = Retry
              \<or> status \<in> set [JStr ''FAILED'', JStr ''ERROR''])
       \<and> (status \<notin> set [JStr ''COMPLETED'', JStr ''SUCCESS'', JStr ''FINISHED'',
                          JStr ''FAILED'', JStr ''ERROR'', JStr ''EXECUTING'',
                          JStr ''QUERYING_HISTORY'', JStr ''RUNNING'', JStr ''PENDING'']
          \<longrightarrow> poll_loop replies max_attempts attempt sleeps
              = poll_loop replies max_attempts (attempt + 1) (sleeps + 1))
       \<and> ((\<forall>i. attempt \<le> i \<and> i < max_attempts \<longrightarrow>
              (\<exists>d f s. replies i = PollData d f \<and> py_get d ''status'' (JStr []) = Inr s
                 \<and> s \<notin> set [JStr ''COMPLETED'', JStr ''SUCCESS'', JStr ''FINISHED'',
                              JStr ''FAILED'', JStr ''ERROR'', JStr ''EXECUTING'',
                              JStr ''QUERYING_HISTORY'', JStr ''RUNNING'', JStr ''PENDING'']))
          \<longrightarrow> poll_loop replies max_attempts attempt sleeps
              = (sleeps + (max_attempts - attempt), Inr timeout_message))"
proof (intro conjI impI)
  assume "status \<in> set [JStr ''COMPLETED'', JStr ''SUCCESS'', JStr ''FINISHED'']
          \<and> extract_response_with_attachments fetch data = Inr answer"
  then have "poll_attempt (replies attempt) = Return answer"
    using assms(2,3) by (simp add: poll_attempt_def)
  then show "poll_loop replies max_attempts attempt sleeps = (sleeps, Inr answer)"
    using assms(1) by (rule poll_loop_return [rotated])
next
  assume "status \<notin> set [JStr ''COMPLETED'', JStr ''SUCCESS'', JStr ''FINISHED'']"
  then show "poll_attempt (replies attempt) = Retry
             \<or> status \<in> set [JStr ''FAILED'', JStr ''ERROR'']"
    using assms(2,3) by (simp add: poll_attempt_def)
next
  assume "status \<notin> set [JStr ''COMPLETED'', JStr ''SUCCESS'', JStr ''FINISHED'',
                          JStr ''FAILED'', JStr ''ERROR'', JStr ''EXECUTING'',
                          JStr ''QUERYING_HISTORY'', JStr ''RUNNING'', JStr ''PENDING'']"
  then have "poll_attempt (replies attempt) = Retry"
    using assms(2,3) by (simp add: poll_attempt_def)
  then show "poll_loop replies max_attempts attempt sleeps
             = poll_loop replies max_attempts (attempt + 1) (sleeps + 1)"
    using assms(1) by (rule poll_loop_retry [rotated])
next
  assume all: "\<forall>i. attempt \<le> i \<and> i < max_attempts \<longrightarrow>
              (\<exists>d f s. replies i = PollData d f \<and> py_get d ''status'' (JStr []) = Inr s
                 \<and> s \<notin> set [JStr ''COMPLETED'', JStr ''SUCCESS'', JStr ''FINISHED'',
                              JStr ''FAILED'', JStr ''ERROR'', JStr ''EXECUTING'',
                              JStr ''QUERYING_HISTORY'', JStr ''RUNNING'', JStr ''PENDING''])"
  have "\<forall>i. attempt \<le> i \<and> i < max_attempts \<longrightarrow> poll_attempt (replies i) = Retry"
  proof (intro allI impI)
    fix i assume "attempt \<le> i \<and> i < max_attempts"
    with all obtain d f s where "replies i = PollData d f"
      "py_get d ''status'' (JStr []) = Inr s"
      "s \<notin> set [JStr ''COMPLETED'', JStr ''SUCCESS'', JStr ''FINISHED'',
                              JStr ''FAILED'', JStr ''ERROR'', JStr ''EXECUTING'',
                              JStr ''QUERYING_HISTORY'', JStr ''RUNNING'', JStr ''PENDING'']"
      by blast
    then show "poll_attempt (replies i) = Retry"
      by (simp add: poll_attempt_def)
  qed
  then show "poll_loop replies max_attempts attempt sleeps
              = (sleeps + (max_attempts - attempt), Inr timeout_message)"
    using assms(1) by (intro poll_loop_unknown_statuses) auto
qed

text \<open>An unknown status on the first attempt, \<open>COMPLETED\<close> on the second: the second attempt
  returns the assembled answer.\<close>

theorem poll_terminal_success_witness:
  "(1::nat) < 30
   \<and> (\<lambda>i. if i = 0 then PollData (JDict [(''status'', JStr ''SOMETHING_NEW'')]) (\<lambda>k. FetchRaises (Exception []))
          else PollData (JDict [(''status'', JStr ''COMPLETED''),
                  (''attachments'', JList [JDict [(''text'', JStr ''Revenue grew by 5%.'')]])])
                 (\<lambda>k. FetchRaises (Exception []))) (1::nat)
     = PollData (JDict [(''status'', JStr ''COMPLETED''),
                  (''attachments'', JList [JDict [(''text'', JStr ''Revenue grew by 5%.'')]])])
                 (\<lambda>k. FetchRaises (Exception []))
   \<and> poll_loop
       (\<lambda>i. if i = 0 then PollData (JDict [(''status'', JStr ''SOMETHING_NEW'')]) (\<lambda>k. FetchRaises (Exception []))
          else PollData (JDict [(''status'', JStr ''COMPLETED''),
                  (''attachments'', JList [JDict [(''text'', JStr ''Revenue grew by 5%.'')]])])
                 (\<lambda>k. FetchRaises (Exception []))) 30 1 1
     = (1, Inr ''Revenue grew by 5%.'')"
proof -
  let ?done = "JDict [(''status'', JStr ''COMPLETED''),
                  (''attachments'', JList [JDict [(''text'', JStr ''Revenue grew by 5%.'')]])]"
  let ?f = "\<lambda>k::nat. FetchRaises (Exception [])"
  let ?replies = "\<lambda>i::nat. if i = 0 then PollData (JDict [(''status'', JStr ''SOMETHING_NEW'')]) ?f
          else PollData ?done ?f"
  have h1: "(1::nat) < 30" by simp
  have h2: "?replies 1 = PollData ?done ?f" by simp
  have h3: "py_get ?done ''status'' (JStr []) = Inr (JStr ''COMPLETED'')"
    by (simp add: py_get_def)
  have h4: "extract_response_with_attachments ?f ?done = Inr ''Revenue grew by 5%.''"
    by code_simp
  show ?thesis
    using poll_terminal_success_and_unknown_status
      [where attempt = 1 and max_attempts = 30 and replies = ?replies and data = ?done
         and fetch = ?f and status = "JStr ''COMPLETED''" and answer = "''Revenue grew by 5%.''"
         and sleeps = 1] h1 h3 h4
    by simp
qed

text \<open>
  Claim C2.  If no attempt of the budget ends polling (each one is a retry, or raises before
  the last attempt), polling returns the timeout message after \<open>max_attempts\<close> sleeps.  A
  payload with status \<open>FAILED\<close> or \<open>ERROR\<close> makes polling return the failure message, which
  embeds the payload's \<^verbatim>\<open>error.message\<close> and is never the timeout message; the embedded
  message is \<open>Unknown error\<close> when the payload has no \<^verbatim>\<open>error\<close> or the error has no
  \<^verbatim>\<open>message\<close>.
\<close>

theorem poll_timeout_distinct_from_remote_failure:
  "((\<forall>i<max_attempts. poll_attempt (replies i) = Retry
        \<or> (i < max_attempts - 1 \<and> (\<exists>e. poll_attempt (replies i) = Raise e)))
      \<longrightarrow> poll_for_response None replies max_attempts = (max_attempts, Inr timeout_message))
   \<and> (attempt < max_attempts \<and> replies attempt = PollData data fetch
        \<and> py_get data ''status'' (JStr []) = Inr status
        \<and> status \<in> set [JStr ''FAILED'', JStr ''ERROR'']
        \<and> py_get data ''error'' (JDict []) = Inr err
        \<and> py_get err ''message'' (JStr ''Unknown error'') = Inr error_msg
      \<longrightarrow> poll_loop replies max_attempts attempt sleeps
            = (sleeps, Inr (''Sorry, Genie encountered an error: '' @ py_str error_msg))
          \<and> ''Sorry, Genie encountered an error: '' @ py_str error_msg \<noteq> timeout_message)
   \<and> (map_of kvs ''error'' = None
      \<longrightarrow> ebind (py_get (JDict kvs) ''error'' (JDict []))
            (\<lambda>err. py_get err ''message'' (JStr ''Unknown error'')) = Inr (JStr ''Unknown error''))
   \<and> (map_of ekvs ''message'' = None
      \<longrightarrow> py_get (JDict ekvs) ''message'' (JStr ''Unknown error'') = Inr (JStr ''Unknown error''))"
proof (intro conjI impI)
  assume "\<forall>i<max_attempts. poll_attempt (replies i) = Retry
        \<or> (i < max_attempts - 1 \<and> (\<exists>e. poll_attempt (replies i) = Raise e))"
  then have "poll_loop replies max_attempts 0 0 = (0 + (max_attempts - 0), Inr timeout_message)"
    by (intro poll_loop_no_terminal) auto
  then show "poll_for_response None replies max_attempts = (max_attempts, Inr timeout_message)"
    by (simp add: poll_for_response_def)
next
  assume h: "attempt < max_attempts \<and> replies attempt = PollData data fetch
        \<and> py_get data ''status'' (JStr []) = Inr status
        \<and> status \<in> set [JStr ''FAILED'', JStr ''ERROR'']
        \<and> py_get data ''error'' (JDict []) = Inr err
        \<and> py_get err ''message'' (JStr ''Unknown error'') = Inr error_msg"
  then have "poll_attempt (replies attempt) = Return (failure_message error_msg)"
    by (auto simp: poll_attempt_def)
  with h show "poll_loop replies max_attempts attempt sleeps
            = (sleeps, Inr (''Sorry, Genie encountered an error: '' @ py_str error_msg))"
    by (simp add: poll_loop_return failure_message_def)
next
  show "''Sorry, Genie encountered an error: '' @ py_str error_msg \<noteq> timeout_message"
    by (simp add: timeout_message_def)
next
  assume "map_of kvs ''error'' = None"
  then show "ebind (py_get (JDict kvs) ''error'' (JDict []))
            (\<lambda>err. py_get err ''message'' (JStr ''Unknown error'')) = Inr (JStr ''Unknown error'')"
    by (simp add: py_get_def)
next
  assume "map_of ekvs ''message'' = None"
  then show "py_get (JDict ekvs) ''message'' (JStr ''Unknown error'') = Inr (JStr ''Unknown error'')"
    by (simp add: py_get_def)
qed

text \<open>Thirty attempts (the default budget), all \<open>PENDING\<close>: the timeout message.\<close>

theorem poll_timeout_witness:
  "poll_attempt (PollData (JDict [(''status'', JStr ''PENDING'')]) (\<lambda>k. FetchRaises (Exception []))) = Retry
   \<and> poll_for_response None
       (\<lambda>i. PollData (JDict [(''status'', JStr ''PENDING'')]) (\<lambda>k. FetchRaises (Exception []))) 30
     = (30, Inr ''Sorry, Genie is taking too long to respond. Please try again.'')"
proof -
  have r: "poll_attempt (PollData (JDict [(''status'', JStr ''PENDING'')]) (\<lambda>k. FetchRaises (Exception []))) = Retry"
    by (simp add: poll_attempt_def py_get_def)
  show ?thesis
    using r poll_timeout_distinct_from_remote_failure
      [of 30 "\<lambda>i. PollData (JDict [(''status'', JStr ''PENDING'')]) (\<lambda>k. FetchRaises (Exception []))"]
    by (simp add: timeout_message_def)
qed

section \<open>Properties of the conversation routing\<close>

lemma ask_question_success_truthy:
  assumes "ask_question r question = GenieSuccess conv_id msg_id response_text"
  shows "truthy conv_id \<and> truthy msg_id"
proof (cases "post r")
  case (PostRaises e)
  with assms show ?thesis by (cases e) (simp_all add: ask_question_def)
next
  case (PostResponse status error_body error_json body)
  have failed: "\<And>e. ask_question_failed e \<noteq> GenieSuccess conv_id msg_id response_text"
    by (case_tac e) simp_all
  from assms PostResponse failed show ?thesis
    by (auto simp: ask_question_def ask_question_http_error_def ebind_def
             split: if_splits option.splits sum.splits prod.splits)
qed

lemma on_message_bound:
  assumes "\<not> is_feedback a" and "extract_user_message names a = Inr user_message"
    and "user_message \<noteq> []"
    and "conversations (local_conversation_id a) = Some g" and "truthy g"
  shows "on_message_activity names r conversations a
         = (conversations, [ContinueConversation g user_message],
            Typing # deliver (continue_conversation r g user_message))"
  using assms by (simp add: on_message_activity_def Let_def)

lemma on_message_unbound:
  assumes "\<not> is_feedback a" and "extract_user_message names a = Inr user_message"
    and "user_message \<noteq> []"
    and "conversations (local_conversation_id a) = None"
  shows "on_message_activity names r conversations a
         = ((if truthy (result_conversation_id (ask_question r user_message))
             then conversations(local_conversation_id a
                    \<mapsto> result_conversation_id (ask_question r user_message))
             else conversations),
            [AskQuestion user_message],
            Typing # deliver (ask_question r user_message))"
  using assms by (simp add: on_message_activity_def Let_def)

lemma on_message_started:
  assumes "\<not> is_feedback a" and "extract_user_message names a = Inr user_message"
    and "user_message \<noteq> []"
    and "conversations (local_conversation_id a) = None"
    and "ask_question r user_message = GenieSuccess conv_id msg_id response_text"
  shows "on_message_activity names r conversations a
         = (conversations(local_conversation_id a \<mapsto> conv_id),
            [AskQuestion user_message],
            [Typing, Text response_text, FeedbackCard conv_id msg_id])"
  using on_message_unbound [where conversations = conversations and r = r, OF assms(1-4)] ask_question_success_truthy [OF assms(5)] assms(5)
  by (simp add: result_conversation_id_def deliver_def send_response_with_feedback_def)

lemma on_message_start_failed:
  assumes "\<not> is_feedback a" and "extract_user_message names a = Inr user_message"
    and "user_message \<noteq> []"
    and "conversations (local_conversation_id a) = None"
    and "ask_question r user_message = GenieError error"
  shows "on_message_activity names r conversations a
         = (conversations, [AskQuestion user_message], [Typing, Text (error_reply error)])"
  using on_message_unbound [where conversations = conversations and r = r, OF assms(1-4)] assms(5)
  by (simp add: result_conversation_id_def deliver_def)

text \<open>The handler writes truthy remote ids only.\<close>

lemma on_message_activity_bindings_truthy:
  assumes "\<forall>k g. conversations k = Some g \<longrightarrow> truthy g"
  shows "\<forall>k g. fst (on_message_activity names r conversations a) k = Some g \<longrightarrow> truthy g"
  using assms
  by (auto simp: on_message_activity_def Let_def split: sum.splits prod.splits if_splits)

text \<open>
  Claim C3.  Take an incoming message that is no feedback click and whose text, with the
  mention removed, is not empty, and a conversation map holding truthy remote ids (the
  handler writes no others).
  \<^item> If the local conversation id is bound, the handler calls \<^verbatim>\<open>continue_conversation\<close> with
    the stored remote id and nothing else, and leaves the map as it is.
  \<^item> \<^verbatim>\<open>ask_question\<close> is called only when the local id has no binding.
  \<^item> If it has none, \<^verbatim>\<open>ask_question\<close> is called, and when that succeeds the binding is made
    from the result's conversation id; a later message on the same local id then continues
    that remote conversation.
\<close>

theorem bound_conversation_is_continued:
  assumes "\<not> is_feedback a" and "extract_user_message names a = Inr user_message"
    and "user_message \<noteq> []"
    and "\<forall>k g. conversations k = Some g \<longrightarrow> truthy g"
  shows "(\<forall>g. conversations (local_conversation_id a) = Some g \<longrightarrow>
            on_message_activity names r conversations a
            = (conversations, [ContinueConversation g user_message],
               Typing # deliver (continue_conversation r g user_message)))
       \<and> (AskQuestion user_message \<in> set (fst (snd (on_message_activity names r conversations a)))
            \<longrightarrow> conversations (local_conversation_id a) = None)
       \<and> (conversations (local_conversation_id a) = None \<longrightarrow>
            fst (snd (on_message_activity names r conversations a)) = [AskQuestion user_message]
            \<and> (\<forall>conv_id msg_id response_text.
                  ask_question r user_message = GenieSuccess conv_id msg_id response_text \<longrightarrow>
                  fst (on_message_activity names r conversations a)
                  = conversations(local_conversation_id a \<mapsto> conv_id)
                  \<and> (\<forall>names' r' a' user_message'.
                        \<not> is_feedback a' \<and> extract_user_message names' a' = Inr user_message'
                        \<and> user_message' \<noteq> []
                        \<and> local_conversation_id a' = local_conversation_id a \<longrightarrow>
                        fst (snd (on_message_activity names' r'
                                    (fst (on_message_activity names r conversations a)) a'))
                        = [ContinueConversation conv_id user_message'])))"
proof (intro conjI allI impI)
  fix g assume "conversations (local_conversation_id a) = Some g"
  with assms(4) have "conversations (local_conversation_id a) = Some g" "truthy g" by auto
  then show "on_message_activity names r conversations a
            = (conversations, [ContinueConversation g user_message],
               Typing # deliver (continue_conversation r g user_message))"
    by (rule on_message_bound [where conversations = conversations, OF assms(1-3)])
next
  assume ask: "AskQuestion user_message
               \<in> set (fst (snd (on_message_activity names r conversations a)))"
  show "conversations (local_conversation_id a) = None"
  proof (cases "conversations (local_conversation_id a)")
    case None then show ?thesis .
  next
    case (Some g)
    with assms(4) have "truthy g" by auto
    from on_message_bound [where conversations = conversations and r = r, OF assms(1-3) Some this] ask show ?thesis by simp
  qed
next
  assume "conversations (local_conversation_id a) = None"
  from on_message_unbound [where conversations = conversations and r = r, OF assms(1-3) this]
  show "fst (snd (on_message_activity names r conversations a)) = [AskQuestion user_message]"
    by simp
next
  fix conv_id msg_id response_text
  assume none: "conversations (local_conversation_id a) = None"
    and ok: "ask_question r user_message = GenieSuccess conv_id msg_id response_text"
  from on_message_started [where conversations = conversations, OF assms(1-3) none ok]
  show "fst (on_message_activity names r conversations a)
        = conversations(local_conversation_id a \<mapsto> conv_id)"
    by simp
next
  fix conv_id msg_id response_text names' r' a' user_message'
  assume none: "conversations (local_conversation_id a) = None"
    and ok: "ask_question r user_message = GenieSuccess conv_id msg_id response_text"
    and second: "\<not> is_feedback a' \<and> extract_user_message names' a' = Inr user_message'
                 \<and> user_message' \<noteq> []
                 \<and> local_conversation_id a' = local_conversation_id a"
  let ?after = "fst (on_message_activity names r conversations a)"
  from on_message_started [where conversations = conversations, OF assms(1-3) none ok] second
  have bound: "?after (local_conversation_id a') = Some conv_id" by simp
  from ask_question_success_truthy [OF ok] have "truthy conv_id" by simp
  from on_message_bound [where conversations = ?after and a = a' and names = names'
      and user_message = user_message' and r = r', OF _ _ _ bound this] second
  show "fst (snd (on_message_activity names' r' ?after a')) = [ContinueConversation conv_id user_message']"
    by simp
qed

lemma ask_question_start_failure:
  assumes "(\<exists>e. post r = PostRaises e)
     \<or> (\<exists>status error_body error_json body.
           post r = PostResponse status error_body error_json body \<and> 400 \<le> status)
     \<or> (\<exists>status error_body error_json e. post r = PostResponse status error_body error_json (Inl e))
     \<or> (\<exists>status error_body error_json data.
           post r = PostResponse status error_body error_json (Inr data)
           \<and> \<not> (\<exists>conv_id msg_id.
                   py_get data ''conversation_id'' (JStr []) = Inr conv_id
                   \<and> py_get data ''message_id'' (JStr []) = Inr msg_id
                   \<and> truthy conv_id \<and> truthy msg_id))"
  shows "\<exists>error. ask_question r question = GenieError error"
proof -
  have failed: "\<And>e. \<exists>error. ask_question_failed e = GenieError error"
    by (case_tac e) simp_all
  from assms consider
      (raises) e where "post r = PostRaises e"
    | (http) status error_body error_json body where
        "post r = PostResponse status error_body error_json body" "400 \<le> status"
    | (body) status error_body error_json e where
        "post r = PostResponse status error_body error_json (Inl e)" "status < 400"
    | (invalid) status error_body error_json data where
        "post r = PostResponse status error_body error_json (Inr data)" "status < 400"
        "\<not> (\<exists>conv_id msg_id.
                   py_get data ''conversation_id'' (JStr []) = Inr conv_id
                   \<and> py_get data ''message_id'' (JStr []) = Inr msg_id
                   \<and> truthy conv_id \<and> truthy msg_id)"
    by (metis not_le)
  then show ?thesis
  proof cases
    case raises
    with failed show ?thesis by (simp add: ask_question_def)
  next
    case http
    with failed show ?thesis
      by (auto simp: ask_question_def ask_question_http_error_def split: option.splits sum.splits)
  next
    case body
    with failed show ?thesis by (simp add: ask_question_def)
  next
    case invalid
    with failed show ?thesis
      by (auto simp: ask_question_def ebind_def split: sum.splits)
  qed
qed

text \<open>
  Claim C4.  Take an incoming message (no feedback click, non-empty text) on a local
  conversation id without a binding, and let the start-conversation call fail: the request
  raises, or the response has an HTTP error status, or its body cannot be read, or the body
  lacks a truthy \<^verbatim>\<open>conversation_id\<close> or \<^verbatim>\<open>message_id\<close>.  Then \<^verbatim>\<open>ask_question\<close> returns an
  error, the conversation map after the handler is the map before it, and handling the
  message again (whatever the remote service does then) calls \<^verbatim>\<open>ask_question\<close> again.
\<close>

theorem failed_start_leaves_bindings_unchanged:
  assumes "\<not> is_feedback a" and "extract_user_message names a = Inr user_message"
    and "user_message \<noteq> []"
    and "conversations (local_conversation_id a) = None"
    and "(\<exists>e. post r = PostRaises e)
     \<or> (\<exists>status error_body error_json body.
           post r = PostResponse status error_body error_json body \<and> 400 \<le> status)
     \<or> (\<exists>status error_body error_json e. post r = PostResponse status error_body error_json (Inl e))
     \<or> (\<exists>status error_body error_json data.
           post r = PostResponse status error_body error_json (Inr data)
           \<and> \<not> (\<exists>conv_id msg_id.
                   py_get data ''conversation_id'' (JStr []) = Inr conv_id
                   \<and> py_get data ''message_id'' (JStr []) = Inr msg_id
                   \<and> truthy conv_id \<and> truthy msg_id))"
  shows "fst (on_message_activity names r conversations a) = conversations
       \<and> fst (snd (on_message_activity names r conversations a)) = [AskQuestion user_message]
       \<and> (\<exists>error. ask_question r user_message = GenieError error)
       \<and> (\<forall>r'. fst (snd (on_message_activity names r'
                            (fst (on_message_activity names r conversations a)) a))
                = [AskQuestion user_message])"
proof -
  from ask_question_start_failure [OF assms(5)] obtain error
    where err: "ask_question r user_message = GenieError error" by blast
  from on_message_start_failed [where conversations = conversations, OF assms(1-4) err]
  have same: "on_message_activity names r conversations a
         = (conversations, [AskQuestion user_message], [Typing, Text (error_reply error)])" .
  have "\<And>r'. fst (snd (on_message_activity names r' conversations a)) = [AskQuestion user_message]"
    using on_message_unbound [where conversations = conversations, OF assms(1-4)] by simp
  with same err show ?thesis by simp
qed


text \<open>A message on a bound conversation: the stored id \<open>conv-1\<close> is continued.\<close>

theorem bound_conversation_witness:
  "\<not> is_feedback \<lparr>activity_text = Some ''what is revenue?'', activity_entities = [],
        recipient_name = [], activity_value = NoValue, conversation_id = Some ''19:abc''\<rparr>
   \<and> extract_user_message []
        \<lparr>activity_text = Some ''what is revenue?'', activity_entities = [],
          recipient_name = [], activity_value = NoValue, conversation_id = Some ''19:abc''\<rparr>
       = Inr ''what is revenue?''
   \<and> on_message_activity []
        \<lparr>post = PostRaises (Exception ''offline''), poll_setup = None,
          polls = (\<lambda>i. PollRaises (Exception ''offline'')), feedback = FeedbackAccepted\<rparr>
        [''19:abc'' \<mapsto> JStr ''conv-1'']
        \<lparr>activity_text = Some ''what is revenue?'', activity_entities = [],
          recipient_name = [], activity_value = NoValue, conversation_id = Some ''19:abc''\<rparr>
       = ([''19:abc'' \<mapsto> JStr ''conv-1''],
          [ContinueConversation (JStr ''conv-1'') ''what is revenue?''],
          [Typing, Text (error_reply ''offline'')])"
proof -
  let ?a = "\<lparr>activity_text = Some ''what is revenue?'', activity_entities = [],
        recipient_name = [], activity_value = NoValue, conversation_id = Some ''19:abc''\<rparr>"
  let ?r = "\<lparr>post = PostRaises (Exception ''offline''), poll_setup = None,
          polls = (\<lambda>i. PollRaises (Exception ''offline'')), feedback = FeedbackAccepted\<rparr>"
  let ?c = "[''19:abc'' \<mapsto> JStr ''conv-1'']"
  have h1: "\<not> is_feedback ?a" by (simp add: is_feedback_def)
  have h2: "extract_user_message [] ?a = Inr ''what is revenue?''" by code_simp
  have h3: "''what is revenue?'' \<noteq> []" by simp
  have h4: "\<forall>k g. ?c k = Some g \<longrightarrow> truthy g" by (simp split: if_splits)
  have h5: "?c (local_conversation_id ?a) = Some (JStr ''conv-1'')"
    by (simp add: local_conversation_id_def)
  have d: "deliver (continue_conversation ?r (JStr ''conv-1'') ''what is revenue?'')
           = [Text (error_reply ''offline'')]"
    by (simp add: continue_conversation_def deliver_def)
  from bound_conversation_is_continued
    [where conversations = ?c and a = ?a and names = "[]" and r = ?r, OF h1 h2 h3 h4]
  have "on_message_activity [] ?r ?c ?a
        = (?c, [ContinueConversation (JStr ''conv-1'') ''what is revenue?''],
           Typing # deliver (continue_conversation ?r (JStr ''conv-1'') ''what is revenue?''))"
    using h5 by blast
  with h1 h2 d show ?thesis by simp
qed

text \<open>A start that is answered with HTTP 403 leaves the empty map empty.\<close>

theorem failed_start_witness:
  "post \<lparr>post = PostResponse 403 ''denied'' None (Inl (Exception [])), poll_setup = None,
          polls = (\<lambda>i. PollRaises (Exception ''offline'')), feedback = FeedbackAccepted\<rparr>
     = PostResponse 403 ''denied'' None (Inl (Exception []))
   \<and> (400::nat) \<le> 403
   \<and> fst (on_message_activity []
        \<lparr>post = PostResponse 403 ''denied'' None (Inl (Exception [])), poll_setup = None,
          polls = (\<lambda>i. PollRaises (Exception ''offline'')), feedback = FeedbackAccepted\<rparr>
        Map.empty
        \<lparr>activity_text = Some ''what is revenue?'', activity_entities = [],
          recipient_name = [], activity_value = NoValue, conversation_id = Some ''19:abc''\<rparr>)
       = Map.empty"
proof -
  let ?a = "\<lparr>activity_text = Some ''what is revenue?'', activity_entities = [],
        recipient_name = [], activity_value = NoValue, conversation_id = Some ''19:abc''\<rparr>"
  let ?r = "\<lparr>post = PostResponse 403 ''denied'' None (Inl (Exception [])), poll_setup = None,
          polls = (\<lambda>i. PollRaises (Exception ''offline'')), feedback = FeedbackAccepted\<rparr>"
  have h1: "\<not> is_feedback ?a" by (simp add: is_feedback_def)
  have h2: "extract_user_message [] ?a = Inr ''what is revenue?''" by code_simp
  have h3: "''what is revenue?'' \<noteq> []" by simp
  have h4: "(Map.empty :: conversations) (local_conversation_id ?a) = None" by simp
  have h5: "(\<exists>e. post ?r = PostRaises e)
     \<or> (\<exists>status error_body error_json body.
           post ?r = PostResponse status error_body error_json body \<and> 400 \<le> status)
     \<or> (\<exists>status error_body error_json e. post ?r = PostResponse status error_body error_json (Inl e))
     \<or> (\<exists>status error_body error_json data.
           post ?r = PostResponse status error_body error_json (Inr data)
           \<and> \<not> (\<exists>conv_id msg_id.
                   py_get data ''conversation_id'' (JStr []) = Inr conv_id
                   \<and> py_get data ''message_id'' (JStr []) = Inr msg_id
                   \<and> truthy conv_id \<and> truthy msg_id))"
    by simp
  from failed_start_leaves_bindings_unchanged
    [where conversations = Map.empty and a = ?a and names = "[]" and r = ?r, OF h1 h2 h3 h4 h5]
  show ?thesis by simp
qed

section \<open>Properties of the feedback round trip\<close>

text \<open>
  Claim C9.  Let \<open>rating\<close>, \<open>conv_id\<close> and \<open>msg_id\<close> be the three fields of the feedback data
  (\<^verbatim>\<open>None\<close> when missing).
  \<^item> If one of them is missing or empty (falsy), the handler answers that the feedback could
    not be recorded and calls nothing.
  \<^item> A feedback request leaves for the remote service only if all three are present, and
    then it carries the rating in upper case.
  \<^item> If all three are present, the rating a string, and the token fetch does not fail, the
    request is sent.
\<close>

theorem feedback_requires_all_fields:
  assumes "py_get feedback_data ''rating'' JNull = Inr rating"
    and "py_get feedback_data ''conversation_id'' JNull = Inr conv_id"
    and "py_get feedback_data ''message_id'' JNull = Inr msg_id"
  shows "(\<not> truthy rating \<or> \<not> truthy conv_id \<or> \<not> truthy msg_id \<longrightarrow>
            handle_feedback r feedback_data = ([], [Text cannot_record_feedback]))
       \<and> (\<forall>c m u. FeedbackRequest c m u \<in> set (fst (handle_feedback r feedback_data)) \<longrightarrow>
            truthy rating \<and> truthy conv_id \<and> truthy msg_id
            \<and> (\<exists>t. rating = JStr t \<and> u = py_upper t)
            \<and> c = py_str conv_id \<and> m = py_str msg_id)
       \<and> (\<forall>t. rating = JStr t \<and> t \<noteq> [] \<and> truthy conv_id \<and> truthy msg_id
              \<and> (\<forall>e. feedback r \<noteq> FeedbackNotSent e) \<longrightarrow>
            fst (handle_feedback r feedback_data)
            = [SendFeedback conv_id msg_id rating,
               FeedbackRequest (py_str conv_id) (py_str msg_id) (py_upper t)])"
proof -
  have rejected: "\<not> truthy rating \<or> \<not> truthy conv_id \<or> \<not> truthy msg_id \<longrightarrow>
            handle_feedback r feedback_data = ([], [Text cannot_record_feedback])"
    using assms by (auto simp: handle_feedback_def)
  have only_when: "truthy rating \<and> truthy conv_id \<and> truthy msg_id
        \<and> (\<exists>t. rating = JStr t \<and> u = py_upper t)
        \<and> c = py_str conv_id \<and> m = py_str msg_id"
    if req: "FeedbackRequest c m u \<in> set (fst (handle_feedback r feedback_data))" for c m u
  proof (cases "truthy rating \<and> truthy conv_id \<and> truthy msg_id")
    case False
    with assms req show ?thesis by (auto simp: handle_feedback_def)
  next
    case True
    with assms req show ?thesis
      by (cases rating; cases "feedback r")
         (auto simp: handle_feedback_def send_feedback_def Let_def)
  qed
  have transmitted: "fst (handle_feedback r feedback_data)
            = [SendFeedback conv_id msg_id rating,
               FeedbackRequest (py_str conv_id) (py_str msg_id) (py_upper t)]"
    if "rating = JStr t \<and> t \<noteq> [] \<and> truthy conv_id \<and> truthy msg_id
          \<and> (\<forall>e. feedback r \<noteq> FeedbackNotSent e)" for t
    using that assms
    by (cases "feedback r") (auto simp: handle_feedback_def send_feedback_def Let_def)
  from rejected only_when transmitted show ?thesis by blast
qed

text \<open>Feedback without a \<^verbatim>\<open>message_id\<close> is rejected and nothing is called.\<close>

theorem feedback_witness:
  "py_get (JDict [(''action'', JStr ''feedback''), (''rating'', JStr ''positive''),
                  (''conversation_id'', JStr ''c1'')]) ''message_id'' JNull = Inr JNull
   \<and> handle_feedback
        \<lparr>post = PostRaises (Exception ''offline''), poll_setup = None,
          polls = (\<lambda>i. PollRaises (Exception ''offline'')), feedback = FeedbackAccepted\<rparr>
        (JDict [(''action'', JStr ''feedback''), (''rating'', JStr ''positive''),
                (''conversation_id'', JStr ''c1'')])
      = ([], [Text cannot_record_feedback])"
proof -
  let ?d = "JDict [(''action'', JStr ''feedback''), (''rating'', JStr ''positive''),
                  (''conversation_id'', JStr ''c1'')]"
  have h1: "py_get ?d ''rating'' JNull = Inr (JStr ''positive'')" by (simp add: py_get_def)
  have h2: "py_get ?d ''conversation_id'' JNull = Inr (JStr ''c1'')" by (simp add: py_get_def)
  have h3: "py_get ?d ''message_id'' JNull = Inr JNull" by (simp add: py_get_def)
  from feedback_requires_all_fields [OF h1 h2 h3] h3 show ?thesis by simp
qed

section \<open>Properties of a started conversation\<close>

lemma ask_question_polled:
  assumes "post r = PostResponse status error_body error_json (Inr data)" and "status < 400"
    and "py_get data ''conversation_id'' (JStr []) = Inr conv_id"
    and "py_get data ''message_id'' (JStr []) = Inr msg_id"
    and "truthy conv_id" and "truthy msg_id"
  shows "ask_question r question
         = (case snd (poll_for_response (poll_setup r) (polls r) default_max_attempts) of
              Inl e \<Rightarrow> ask_question_failed e
            | Inr response_text \<Rightarrow> GenieSuccess conv_id msg_id response_text)"
  using assms by (simp add: ask_question_def)

lemma ask_question_failed_error: "\<exists>error. ask_question_failed e = GenieError error"
  by (cases e) simp_all

text \<open>
  Claim C10 (as amended).  Let the start-conversation call return a truthy
  \<^verbatim>\<open>conversation_id\<close> and \<^verbatim>\<open>message_id\<close>.
  \<^item> Whenever polling returns a text, \<^verbatim>\<open>ask_question\<close> returns status \<open>success\<close> with that
    text; for a message on an unbound local conversation the handler then binds it to the
    conversation id and sends the text followed by the feedback card.
  \<^item> This covers the exhausted attempt budget (the text is the timeout message) and a
    remote status \<open>FAILED\<close> or \<open>ERROR\<close> (the text is the failure message).
  \<^item> When polling raises instead, \<^verbatim>\<open>ask_question\<close> returns status \<open>error\<close>; the handler
    sends the error text without a card and leaves the conversation map as it was.
\<close>

theorem started_conversation_succeeds_when_polling_returns:
  assumes "post r = PostResponse status error_body error_json (Inr data)" and "status < 400"
    and "py_get data ''conversation_id'' (JStr []) = Inr conv_id"
    and "py_get data ''message_id'' (JStr []) = Inr msg_id"
    and "truthy conv_id" and "truthy msg_id"
  shows "(\<forall>response_text.
            snd (poll_for_response (poll_setup r) (polls r) default_max_attempts) = Inr response_text
            \<longrightarrow> ask_question r question = GenieSuccess conv_id msg_id response_text
                \<and> (\<not> is_feedback a \<and> extract_user_message names a = Inr question \<and> question \<noteq> []
                      \<and> conversations (local_conversation_id a) = None
                    \<longrightarrow> on_message_activity names r conversations a
                        = (conversations(local_conversation_id a \<mapsto> conv_id),
                           [AskQuestion question],
                           [Typing, Text response_text, FeedbackCard conv_id msg_id])))
       \<and> (poll_setup r = None
            \<and> (\<forall>i<default_max_attempts. poll_attempt (polls r i) = Retry
                  \<or> (i < default_max_attempts - 1 \<and> (\<exists>e. poll_attempt (polls r i) = Raise e)))
          \<longrightarrow> ask_question r question = GenieSuccess conv_id msg_id timeout_message)
       \<and> (\<forall>payload fetch st err error_msg.
            poll_setup r = None \<and> polls r 0 = PollData payload fetch
            \<and> py_get payload ''status'' (JStr []) = Inr st
            \<and> st \<in> set [JStr ''FAILED'', JStr ''ERROR'']
            \<and> py_get payload ''error'' (JDict []) = Inr err
            \<and> py_get err ''message'' (JStr ''Unknown error'') = Inr error_msg
          \<longrightarrow> ask_question r question = GenieSuccess conv_id msg_id (failure_message error_msg))
       \<and> (\<forall>e. snd (poll_for_response (poll_setup r) (polls r) default_max_attempts) = Inl e
            \<longrightarrow> (\<exists>error. ask_question r question = GenieError error
                   \<and> (\<not> is_feedback a \<and> extract_user_message names a = Inr question
                        \<and> question \<noteq> [] \<and> conversations (local_conversation_id a) = None
                      \<longrightarrow> on_message_activity names r conversations a
                          = (conversations, [AskQuestion question],
                             [Typing, Text (error_reply error)]))))"
proof -
  note polled = ask_question_polled [OF assms, of question]
  have returns: "ask_question r question = GenieSuccess conv_id msg_id response_text
        \<and> (\<not> is_feedback a \<and> extract_user_message names a = Inr question \<and> question \<noteq> []
              \<and> conversations (local_conversation_id a) = None
            \<longrightarrow> on_message_activity names r conversations a
                = (conversations(local_conversation_id a \<mapsto> conv_id),
                   [AskQuestion question],
                   [Typing, Text response_text, FeedbackCard conv_id msg_id]))"
    if p: "snd (poll_for_response (poll_setup r) (polls r) default_max_attempts) = Inr response_text"
    for response_text
  proof -
    from polled p have ok: "ask_question r question = GenieSuccess conv_id msg_id response_text"
      by simp
    then show ?thesis
      using on_message_started [where conversations = conversations and a = a and names = names
          and r = r and user_message = question]
      by blast
  qed
  have timeout: "ask_question r question = GenieSuccess conv_id msg_id timeout_message"
    if t: "poll_setup r = None
            \<and> (\<forall>i<default_max_attempts. poll_attempt (polls r i) = Retry
                  \<or> (i < default_max_attempts - 1 \<and> (\<exists>e. poll_attempt (polls r i) = Raise e)))"
  proof -
    from t have "poll_loop (polls r) default_max_attempts 0 0
                 = (0 + (default_max_attempts - 0), Inr timeout_message)"
      by (intro poll_loop_no_terminal) auto
    with t have "snd (poll_for_response (poll_setup r) (polls r) default_max_attempts)
                 = Inr timeout_message"
      by (simp add: poll_for_response_def)
    with polled show ?thesis by simp
  qed
  have failed: "ask_question r question = GenieSuccess conv_id msg_id (failure_message error_msg)"
    if f: "poll_setup r = None \<and> polls r 0 = PollData payload fetch
            \<and> py_get payload ''status'' (JStr []) = Inr st
            \<and> st \<in> set [JStr ''FAILED'', JStr ''ERROR'']
            \<and> py_get payload ''error'' (JDict []) = Inr err
            \<and> py_get err ''message'' (JStr ''Unknown error'') = Inr error_msg"
    for payload fetch st err error_msg
  proof -
    from f have "poll_attempt (polls r 0) = Return (failure_message error_msg)"
      by (auto simp: poll_attempt_def)
    then have "poll_loop (polls r) default_max_attempts 0 0 = (0, Inr (failure_message error_msg))"
      by (intro poll_loop_return) (simp_all add: default_max_attempts_def)
    with f have "snd (poll_for_response (poll_setup r) (polls r) default_max_attempts)
                 = Inr (failure_message error_msg)"
      by (simp add: poll_for_response_def)
    with polled show ?thesis by simp
  qed
  have raised: "\<exists>error. ask_question r question = GenieError error
                   \<and> (\<not> is_feedback a \<and> extract_user_message names a = Inr question
                        \<and> question \<noteq> [] \<and> conversations (local_conversation_id a) = None
                      \<longrightarrow> on_message_activity names r conversations a
                          = (conversations, [AskQuestion question],
                             [Typing, Text (error_reply error)]))"
    if p: "snd (poll_for_response (poll_setup r) (polls r) default_max_attempts) = Inl e" for e
  proof -
    from ask_question_failed_error obtain error where "ask_question_failed e = GenieError error"
      by blast
    with polled p have err: "ask_question r question = GenieError error" by simp
    then show ?thesis
      using on_message_start_failed [where conversations = conversations and a = a
          and names = names and r = r and user_message = question]
      by blast
  qed
  from returns timeout failed raised show ?thesis by blast
qed

text \<open>
  Claim C10 as stated fails: the start call returns both ids, every polling request fails
  with a network error, the last one's exception leaves \<^verbatim>\<open>_poll_for_response\<close>, and
  \<^verbatim>\<open>ask_question\<close> returns status \<open>error\<close>; no binding is made and no card is sent.
\<close>

theorem polling_exception_gives_error_status:
  "py_get (JDict [(''conversation_id'', JStr ''c1''), (''message_id'', JStr ''m1'')])
      ''conversation_id'' (JStr []) = Inr (JStr ''c1'')
   \<and> py_get (JDict [(''conversation_id'', JStr ''c1''), (''message_id'', JStr ''m1'')])
      ''message_id'' (JStr []) = Inr (JStr ''m1'')
   \<and> ask_question
        \<lparr>post = PostResponse 200 [] None
                  (Inr (JDict [(''conversation_id'', JStr ''c1''), (''message_id'', JStr ''m1'')])),
          poll_setup = None, polls = (\<lambda>i. PollRaises (Exception ''Connection reset'')),
          feedback = FeedbackAccepted\<rparr>
        ''what is revenue?''
      = GenieError ''Connection reset''
   \<and> on_message_activity []
        \<lparr>post = PostResponse 200 [] None
                  (Inr (JDict [(''conversation_id'', JStr ''c1''), (''message_id'', JStr ''m1'')])),
          poll_setup = None, polls = (\<lambda>i. PollRaises (Exception ''Connection reset'')),
          feedback = FeedbackAccepted\<rparr>
        Map.empty
        \<lparr>activity_text = Some ''what is revenue?'', activity_entities = [],
          recipient_name = [], activity_value = NoValue, conversation_id = Some ''19:abc''\<rparr>
      = (Map.empty, [AskQuestion ''what is revenue?''],
         [Typing, Text (error_reply ''Connection reset'')])"
proof -
  let ?a = "\<lparr>activity_text = Some ''what is revenue?'', activity_entities = [],
        recipient_name = [], activity_value = NoValue, conversation_id = Some ''19:abc''\<rparr>"
  let ?r = "\<lparr>post = PostResponse 200 [] None
                  (Inr (JDict [(''conversation_id'', JStr ''c1''), (''message_id'', JStr ''m1'')])),
          poll_setup = None, polls = (\<lambda>i. PollRaises (Exception ''Connection reset'')),
          feedback = FeedbackAccepted\<rparr>"
  have ask: "ask_question ?r ''what is revenue?'' = GenieError ''Connection reset''"
    by code_simp
  have h1: "\<not> is_feedback ?a" by (simp add: is_feedback_def)
  have h2: "extract_user_message [] ?a = Inr ''what is revenue?''" by code_simp
  have h4: "(Map.empty :: conversations) (local_conversation_id ?a) = None" by simp
  from on_message_start_failed [where conversations = Map.empty and a = ?a and names = "[]"
      and r = ?r, OF h1 h2 _ h4 ask] ask
  show ?thesis by (simp add: py_get_def)
qed

text \<open>A start whose thirty polls all say \<open>PENDING\<close>: status \<open>success\<close> with the timeout text.\<close>

theorem timed_out_start_witness:
  "ask_question
     \<lparr>post = PostResponse 200 [] None
               (Inr (JDict [(''conversation_id'', JStr ''c1''), (''message_id'', JStr ''m1'')])),
       poll_setup = None,
       polls = (\<lambda>i. PollData (JDict [(''status'', JStr ''PENDING'')]) (\<lambda>k. FetchRaises (Exception []))),
       feedback = FeedbackAccepted\<rparr>
     ''what is revenue?''
   = GenieSuccess (JStr ''c1'') (JStr ''m1'')
       ''Sorry, Genie is taking too long to respond. Please try again.''"
proof -
  let ?data = "JDict [(''conversation_id'', JStr ''c1''), (''message_id'', JStr ''m1'')]"
  let ?r = "\<lparr>post = PostResponse 200 [] None (Inr ?data),
       poll_setup = None,
       polls = (\<lambda>i. PollData (JDict [(''status'', JStr ''PENDING'')]) (\<lambda>k. FetchRaises (Exception []))),
       feedback = FeedbackAccepted\<rparr>"
  have h1: "post ?r = PostResponse 200 [] None (Inr ?data)" by simp
  have h2: "(200::nat) < 400" by simp
  have h3: "py_get ?data ''conversation_id'' (JStr []) = Inr (JStr ''c1'')" by (simp add: py_get_def)
  have h4: "py_get ?data ''message_id'' (JStr []) = Inr (JStr ''m1'')" by (simp add: py_get_def)
  have h5: "truthy (JStr ''c1'')" "truthy (JStr ''m1'')" by simp_all
  have retry: "poll_attempt (PollData (JDict [(''status'', JStr ''PENDING'')]) (\<lambda>k. FetchRaises (Exception []))) = Retry"
    by (simp add: poll_attempt_def py_get_def)
  from started_conversation_succeeds_when_polling_returns
    [where r = ?r and question = "''what is revenue?''", OF h1 h2 h3 h4 h5] retry
  show ?thesis by (simp add: timeout_message_def)
qed

section \<open>Properties of the mention removal\<close>

text \<open>Nothing is ever collected from the entities: the first \<^verbatim>\<open>entity.get\<close> raises, and the
  \<^verbatim>\<open>except\<close> clause ends the collection.\<close>

lemma collect_mentions_nothing: "collect_mentions entities collected = collected"
  by (cases entities; cases collected) (simp_all add: entity_get_def)

text \<open>So the entities play no part in the extracted message: only the fixed markup
  \<open><at>Databricks Genie</at>\<close> is removed, then the names are stripped and the text trimmed.\<close>

lemma extract_user_message_ignores_entities:
  "extract_user_message names a
   = (case activity_text a of
        None \<Rightarrow> Inr []
      | Some raw_text \<Rightarrow>
          if raw_text = [] then Inr []
          else ebind (strip_names names (py_replace raw_text ''<at>Databricks Genie</at>'' []))
                 (\<lambda>message. Inr (py_strip message)))"
  by (simp add: extract_user_message_def collect_mentions_nothing split: option.splits)

lemma py_strip_trimmed:
  "py_strip s = [] \<or> (\<not> is_space (hd (py_strip s)) \<and> \<not> is_space (last (py_strip s)))"
proof (cases "py_strip s = []")
  case True then show ?thesis by simp
next
  case False
  let ?ys = "dropWhile is_space s"
  let ?zs = "dropWhile is_space (rev ?ys)"
  from False have zs: "?zs \<noteq> []" by (simp add: py_strip_def)
  then have "\<not> is_space (hd ?zs)" by (rule hd_dropWhile)
  with zs have l: "\<not> is_space (last (py_strip s))"
    by (simp add: py_strip_def last_rev)
  have ys: "?ys \<noteq> []"
  proof
    assume e: "?ys = []"
    have "?zs = []" unfolding e by simp
    with zs show False by simp
  qed
  then have hy: "\<not> is_space (hd ?ys)" by (rule hd_dropWhile)
  have "rev ?ys = takeWhile is_space (rev ?ys) @ ?zs" by simp
  then have "?ys = rev ?zs @ rev (takeWhile is_space (rev ?ys))"
    by (metis rev_append rev_rev_ident)
  with zs have "hd ?ys = hd (rev ?zs)" by (metis hd_append2 rev_is_Nil_conv)
  with hy have "\<not> is_space (hd (py_strip s))" by (simp add: py_strip_def)
  with l show ?thesis by simp
qed

text \<open>The extracted message is trimmed.\<close>

lemma extract_user_message_trimmed:
  assumes "extract_user_message names a = Inr message"
  shows "message = [] \<or> (\<not> is_space (hd message) \<and> \<not> is_space (last message))"
proof -
  from assms have "message = [] \<or> (\<exists>s. message = py_strip s)"
    unfolding extract_user_message_ignores_entities
    by (auto simp: ebind_def split: option.splits if_splits sum.splits)
  with py_strip_trimmed show ?thesis by auto
qed

text \<open>A leading name of the bot is stripped, and so is the fixed markup.\<close>

lemma extract_user_message_strips_leading_name:
  "extract_user_message [JStr ''Bot'']
     \<lparr>activity_text = Some ''  @bot: what is revenue? '', activity_entities = [],
       recipient_name = ''Bot'', activity_value = NoValue, conversation_id = Some ''19:abc''\<rparr>
   = Inr ''what is revenue?''
   \<and> extract_user_message [JStr ''Databricks Genie'']
     \<lparr>activity_text = Some ''<at>Databricks Genie</at> what is revenue?'', activity_entities = [],
       recipient_name = ''Databricks Genie'', activity_value = NoValue,
       conversation_id = Some ''19:abc''\<rparr>
   = Inr ''what is revenue?''"
  by code_simp

text \<open>
  Claim C8 (the code at the failing input).  The activity with the text
  \<open><at>Bot</at> what is revenue?\<close>, a mention entity whose markup is \<open><at>Bot</at>\<close> and the
  recipient \<open>Bot\<close>: the only name to strip is \<open>Bot\<close>, the markup is not collected, and the
  extracted message still begins with it.
\<close>

theorem extract_user_message_keeps_entity_markup:
  "possible_names
     \<lparr>activity_text = Some ''<at>Bot</at> what is revenue?'',
       activity_entities =
         [Entity (JDict [(''type'', JStr ''mention''), (''text'', JStr ''<at>Bot</at>''),
                         (''mentioned'', JDict [(''id'', JStr ''28:bot''), (''name'', JStr ''Bot'')])])],
       recipient_name = ''Bot'', activity_value = NoValue,
       conversation_id = Some ''19:abc''\<rparr>
   = set [JStr ''Bot'']
   \<and> extract_user_message [JStr ''Bot'']
     \<lparr>activity_text = Some ''<at>Bot</at> what is revenue?'',
       activity_entities =
         [Entity (JDict [(''type'', JStr ''mention''), (''text'', JStr ''<at>Bot</at>''),
                         (''mentioned'', JDict [(''id'', JStr ''28:bot''), (''name'', JStr ''Bot'')])])],
       recipient_name = ''Bot'', activity_value = NoValue,
       conversation_id = Some ''19:abc''\<rparr>
   = Inr ''<at>Bot</at> what is revenue?''"
proof -
  have names: "possible_names
     \<lparr>activity_text = Some ''<at>Bot</at> what is revenue?'',
       activity_entities =
         [Entity (JDict [(''type'', JStr ''mention''), (''text'', JStr ''<at>Bot</at>''),
                         (''mentioned'', JDict [(''id'', JStr ''28:bot''), (''name'', JStr ''Bot'')])])],
       recipient_name = ''Bot'', activity_value = NoValue,
       conversation_id = Some ''19:abc''\<rparr>
   = set [JStr ''Bot'']"
    by (simp add: possible_names_def collect_mentions_nothing)
  have message: "extract_user_message [JStr ''Bot'']
     \<lparr>activity_text = Some ''<at>Bot</at> what is revenue?'',
       activity_entities =
         [Entity (JDict [(''type'', JStr ''mention''), (''text'', JStr ''<at>Bot</at>''),
                         (''mentioned'', JDict [(''id'', JStr ''28:bot''), (''name'', JStr ''Bot'')])])],
       recipient_name = ''Bot'', activity_value = NoValue,
       conversation_id = Some ''19:abc''\<rparr>
   = Inr ''<at>Bot</at> what is revenue?''"
    by code_simp
  from names message show ?thesis by (rule conjI)
qed

end
